theory Spec2Isabelle
  imports Complex_Main
begin

section \<open>Common vocabulary of the route handlers\<close>

text \<open>
  The server is an Express application over five Mongoose collections. Every route is
  modelled as a function from the request data and the database state to the HTTP response
  and the new database state; one request runs to its end before the next one starts,
  and requests that overlap are modelled apart, as runs of their steps. Two versions of
  the server are in the tree: the current one (validation, price recomputation, order
  numbers) and an earlier one; definitions of the earlier one carry the suffix
  \<open>_legacy\<close>.

  Conventions of the embedding:
  \<^item> an ObjectId is the string that \<open>toString()\<close> renders; a product id of a request is
    the string as sent, which the driver casts to an ObjectId or refuses (\<open>CastError\<close>);
    the cast is a parameter of the environment; user ids come out of a verified token
    and order ids out of the driver, both in rendered form;
  \<^item> JavaScript Numbers (prices, quantities, totals) are rational numbers, so
    floating-point rounding is outside the model; a quantity of a request is a number;
  \<^item> the password of a login and the email of a forgot-password request are a string
    or another JSON value; the other text fields of a request are strings;
  \<^item> strings are byte strings; \<open>toLowerCase\<close> acts on the ASCII letters and \<open>trim\<close> on
    the ASCII white space;
  \<^item> timestamps that no handler reads back (\<open>createdAt\<close>, \<open>updatedAt\<close>, \<open>addedAt\<close>),
    measurements and profile fields that are only passed through are left out of the
    documents, and the signed session token is left out of the login body;
  \<^item> a call that rejects or throws is a flag of the environment record: the mail
    transport, the reads (\<open>find\<close>, \<open>findOne\<close>, \<open>findById\<close>) of the login, forgot-password,
    cart and order routes, every \<open>save()\<close>, the upsert of a reset ticket, the cart update
    of the order workflow, and the signing of a token without a secret; the reads of the
    registration and reset-password routes are evaluated on the in-memory state;
  \<^item> the clock \<open>e_now\<close> is read in seconds by the token routes (as \<open>jsonwebtoken\<close>
    does) and in milliseconds by the order workflow (\<open>Date.now()\<close>).
\<close>

record mail =
  m_to :: string
  m_subject :: string

record env =
  e_now :: nat
  e_newId :: string
  e_development :: bool
  e_cast :: "string \<Rightarrow> string option"
  e_secretSet :: bool
  e_findFails :: bool
  e_saveFails :: bool
  e_upsertFails :: bool
  e_cartClearFails :: bool
  e_mailFails :: bool

subsection \<open>Strings\<close>

definition lowerChar :: "char \<Rightarrow> char" where
  "lowerChar c =
     (let n = (of_char c :: nat) in if 65 \<le> n \<and> n \<le> 90 then char_of (n + 32) else c)"

definition toLowerCase :: "string \<Rightarrow> string" where
  "toLowerCase s = map lowerChar s"



text \<open>
  The cast that every version of the driver has: a string of 24 hexadecimal digits is an
  ObjectId, rendered in lower case. It is the cast of the sample data; the routes take
  the cast from the environment.
\<close>

definition isHexDigit :: "char \<Rightarrow> bool" where
  "isHexDigit c = (c \<in> set ''0123456789abcdefABCDEF'')"

definition hexObjectId :: "string \<Rightarrow> string option" where
  "hexObjectId str =
     (if length str = 24 \<and> list_all isHexDigit str then Some (toLowerCase str) else None)"

text \<open>
  A body field read as text: a string, or another JSON value (a number, a boolean,
  \<open>null\<close>, an object, a missing field), of which the routes use only the string that the
  validation library makes of it (empty for \<open>null\<close> and for a missing field).
\<close>

datatype field = Str string | NonStr string


subsection \<open>Collection primitives\<close>

text \<open>\<open>findOneAndUpdate\<close> without upsert: the first matching document is changed.\<close>

fun updateFirst :: "('a \<Rightarrow> bool) \<Rightarrow> ('a \<Rightarrow> 'a) \<Rightarrow> 'a list \<Rightarrow> 'a list" where
  "updateFirst P f [] = []"
| "updateFirst P f (x # xs) = (if P x then f x # xs else x # updateFirst P f xs)"

text \<open>\<open>deleteOne\<close>: the first matching document is removed.\<close>

fun deleteOne :: "('a \<Rightarrow> bool) \<Rightarrow> 'a list \<Rightarrow> 'a list" where
  "deleteOne P [] = []"
| "deleteOne P (x # xs) = (if P x then xs else x # deleteOne P xs)"

text \<open>\<open>Array.prototype.findIndex\<close>, with \<open>None\<close> for \<open>-1\<close>.\<close>

fun findIndex :: "('a \<Rightarrow> bool) \<Rightarrow> 'a list \<Rightarrow> nat option" where
  "findIndex P [] = None"
| "findIndex P (x # xs) =
     (if P x then Some 0 else (case findIndex P xs of None \<Rightarrow> None | Some i \<Rightarrow> Some (Suc i)))"

text \<open>\<open>splice(i, 1)\<close>.\<close>

definition splice1 :: "nat \<Rightarrow> 'a list \<Rightarrow> 'a list" where
  "splice1 i xs = take i xs @ drop (Suc i) xs"

section \<open>Documents\<close>

text \<open>
  bcrypt is modelled as an ideal password hash: the digest records the cost factor and
  the password it was made from, and \<open>compare\<close> succeeds exactly on that password.
\<close>

datatype pwhash = Bcrypt nat string

definition bcrypt_hash :: "string \<Rightarrow> nat \<Rightarrow> pwhash" where
  "bcrypt_hash pw rounds = Bcrypt rounds pw"


record user =
  u_id :: string
  u_username :: string
  u_email :: string
  u_password :: pwhash
  u_firstname :: string
  u_isActive :: bool
  u_lastLogin :: "nat option"

text \<open>
  A reset token is the JWT \<open>jwt.sign({ email }, JWT_SECRET, { expiresIn: '1h' })\<close>: its
  payload, its issue time in seconds and whether its signature verifies under the secret.
\<close>

record token =
  t_email :: string
  t_iat :: nat
  t_signed :: bool

definition jwt_sign :: "string \<Rightarrow> nat \<Rightarrow> token" where
  "jwt_sign email now = \<lparr>t_email = email, t_iat = now, t_signed = True\<rparr>"


record ticket =
  r_email :: string
  r_token :: token

text \<open>The JSON bodies the handlers send, with their status codes.\<close>

datatype payload =
    ErrorJson string
  | MessageJson string
  | LoginJson string string string string
  | ResetLinkJson string "token option"
  | OrderPlacedJson string string
  | OrderPlacedLegacyJson string
  | ValidationJson "string list"

datatype response = Response nat payload

definition internalError :: response where
  "internalError = Response 500 (ErrorJson ''Internal server error'')"

text \<open>A response is an error when its status is in the 4xx or 5xx range.\<close>

fun isError :: "response \<Rightarrow> bool" where
  "isError (Response code body) = (400 \<le> code)"

record product =
  p_price :: rat
  p_isActive :: bool

record cart_line =
  cl_productId :: string
  cl_quantity :: rat

record address =
  a_name :: string
  a_phone :: string
  a_pincode :: string
  a_address :: string

record order_line =
  ol_productId :: string
  ol_quantity :: rat
  ol_price :: rat

record order =
  o_id :: string
  o_userId :: string
  o_orderNumber :: string
  o_products :: "order_line list"
  o_deliveryAddress :: address
  o_paymentMethod :: string
  o_totalAmount :: rat
  o_deliveryCharge :: rat
  o_status :: string
  o_estimatedDelivery :: nat

record db =
  users :: "user list"
  products :: "string \<rightharpoonup> product"
  carts :: "string \<rightharpoonup> cart_line list"
  orders :: "order list"
  resets :: "ticket list"
  outbox :: "mail list"

definition sendMail :: "env \<Rightarrow> mail \<Rightarrow> db \<Rightarrow> db option" where
  "sendMail ev m s = (if e_mailFails ev then None else Some (s\<lparr>outbox := outbox s @ [m]\<rparr>))"

section \<open>Authentication routes\<close>

record reg_body =
  rb_username :: string
  rb_email :: string
  rb_password :: string
  rb_firstname :: string

text \<open>\<open>POST /api/auth/register\<close>, on the body that the validation middleware passes on.\<close>

definition register :: "env \<Rightarrow> reg_body \<Rightarrow> db \<Rightarrow> response \<times> db" where
  "register ev b s =
     (case find (\<lambda>u. u_username u = toLowerCase (rb_username b) \<or>
                      u_email u = toLowerCase (rb_email b)) (users s) of
        Some existingUser \<Rightarrow> (Response 400 (ErrorJson ''Username or email already exists''), s)
      | None \<Rightarrow>
          if e_saveFails ev then (internalError, s)
          else
            let usr = \<lparr>u_id = e_newId ev,
                       u_username = toLowerCase (rb_username b),
                       u_email = toLowerCase (rb_email b),
                       u_password = bcrypt_hash (rb_password b) 12,
                       u_firstname = rb_firstname b,
                       u_isActive = True,
                       u_lastLogin = None\<rparr>;
                s1 = s\<lparr>users := users s @ [usr]\<rparr>;
                s2 = (case sendMail ev \<lparr>m_to = u_email usr,
                                         m_subject = ''Welcome to Rudra Tailoring Shop!''\<rparr> s1 of
                        None \<Rightarrow> s1 | Some s' \<Rightarrow> s')
            in (Response 201 (MessageJson ''User registered successfully''), s2))"



text \<open>
  \<open>PasswordReset.findOneAndUpdate({ email }, { token }, { upsert: true })\<close>: the first
  ticket of the email gets the new token; without one, a ticket is inserted.
\<close>

definition upsertTicket :: "string \<Rightarrow> token \<Rightarrow> ticket list \<Rightarrow> ticket list" where
  "upsertTicket email tok ts =
     (case find (\<lambda>d. r_email d = email) ts of
        Some d \<Rightarrow> updateFirst (\<lambda>d. r_email d = email) (\<lambda>d. d\<lparr>r_token := tok\<rparr>) ts
      | None \<Rightarrow> ts @ [\<lparr>r_email = email, r_token = tok\<rparr>])"

text \<open>
  \<open>POST /api/auth/forgot-password\<close>. \<open>email.toLowerCase()\<close> throws on an email that is not
  a string; \<open>jwt.sign\<close> throws when \<open>JWT_SECRET\<close> is not set (it has no default here);
  each of these, and a rejected read or upsert, ends in the handler's \<open>catch\<close> branch.
\<close>

definition forgotPassword :: "env \<Rightarrow> field \<Rightarrow> db \<Rightarrow> response \<times> db" where
  "forgotPassword ev email s =
     (case email of
        NonStr v \<Rightarrow> (internalError, s)
      | Str str \<Rightarrow>
          if e_findFails ev then (internalError, s)
          else
            case find (\<lambda>u. u_email u = toLowerCase str) (users s) of
              None \<Rightarrow> (Response 400 (ErrorJson ''User with this email does not exist''), s)
            | Some usr \<Rightarrow>
                if \<not> e_secretSet ev \<or> e_upsertFails ev then (internalError, s)
                else
                  let resetToken = jwt_sign (toLowerCase str) (e_now ev);
                      s1 = s\<lparr>resets := upsertTicket (toLowerCase str) resetToken (resets s)\<rparr>;
                      s2 = (case sendMail ev \<lparr>m_to = str,
                                 m_subject = ''Password Reset Request - Rudra Tailoring Shop''\<rparr> s1 of
                              None \<Rightarrow> s1 | Some s' \<Rightarrow> s')
                  in (Response 200 (ResetLinkJson ''Password reset link sent to your email''
                        (if e_development ev then Some resetToken else None)), s2))"


subsection \<open>The earlier server\<close>

text \<open>
  The earlier server keeps its own collections: its user schema has no \<open>lowercase\<close> option
  and no \<open>isActive\<close> flag, and its order schema has neither an order number nor a price.
\<close>

record user_legacy =
  lu_id :: string
  lu_username :: string
  lu_email :: string
  lu_password :: pwhash
  lu_firstname :: string

record order_legacy =
  lo_id :: string
  lo_userId :: string
  lo_products :: "cart_line list"
  lo_deliveryAddress :: address
  lo_paymentMethod :: string
  lo_totalAmount :: rat
  lo_status :: string

record product_legacy =
  lp_price :: rat

record db_legacy =
  users_legacy :: "user_legacy list"
  products_legacy :: "string \<rightharpoonup> product_legacy"
  carts_legacy :: "string \<rightharpoonup> cart_line list"
  orders_legacy :: "order_legacy list"
  resets_legacy :: "ticket list"

text \<open>\<open>POST /api/auth/register\<close> of the earlier server.\<close>

definition register_legacy :: "env \<Rightarrow> reg_body \<Rightarrow> db_legacy \<Rightarrow> response \<times> db_legacy" where
  "register_legacy ev b s =
     (case find (\<lambda>u. lu_username u = rb_username b \<or> lu_email u = rb_email b)
             (users_legacy s) of
        Some existingUser \<Rightarrow> (Response 400 (ErrorJson ''Username or email already exists''), s)
      | None \<Rightarrow>
          if e_saveFails ev then (internalError, s)
          else
            (Response 201 (MessageJson ''User registered successfully''),
             s\<lparr>users_legacy := users_legacy s @
                  [\<lparr>lu_id = e_newId ev,
                    lu_username = rb_username b,
                    lu_email = rb_email b,
                    lu_password = bcrypt_hash (rb_password b) 10,
                    lu_firstname = rb_firstname b\<rparr>]\<rparr>))"

text \<open>\<open>POST /api/auth/forgot-password\<close> of the earlier server, for an email sent as a
  string: the email is looked up as sent, no mail goes out and the reset link is always
  returned. Its secret has a default, so signing does not throw.\<close>

definition forgotPassword_legacy :: "env \<Rightarrow> string \<Rightarrow> db_legacy \<Rightarrow> response \<times> db_legacy" where
  "forgotPassword_legacy ev email s =
     (if e_findFails ev then (internalError, s)
      else
        case find (\<lambda>u. lu_email u = email) (users_legacy s) of
          None \<Rightarrow> (Response 400 (ErrorJson ''User with this email does not exist''), s)
        | Some usr \<Rightarrow>
            if e_upsertFails ev then (internalError, s)
            else
              let resetToken = jwt_sign email (e_now ev)
              in (Response 200 (ResetLinkJson ''Password reset link sent to your email''
                    (Some resetToken)),
                  s\<lparr>resets_legacy := upsertTicket email resetToken (resets_legacy s)\<rparr>))"

section \<open>Product lookup\<close>

text \<open>
  \<open>Product.findById(id)\<close> on the id string of a request: the driver casts the string, and
  a string that is no ObjectId makes the call throw; so does a rejected read. A found
  product comes with its id as the database renders it.
\<close>

datatype lookup = Thrown | Absent | Found string product

definition findById :: "env \<Rightarrow> db \<Rightarrow> string \<Rightarrow> lookup" where
  "findById ev s productId =
     (if e_findFails ev then Thrown
      else
        case e_cast ev productId of
          None \<Rightarrow> Thrown
        | Some oid \<Rightarrow> (case products s oid of None \<Rightarrow> Absent | Some product \<Rightarrow> Found oid product))"

section \<open>Cart routes\<close>

text \<open>
  The cart schema declares \<open>quantity: { type: Number, default: 1, min: 1 }\<close>, which
  \<open>cart.save()\<close> validates on every line; a failed validation rejects the save and the
  handler answers from its \<open>catch\<close> branch.
\<close>

definition validCart :: "cart_line list \<Rightarrow> bool" where
  "validCart c = list_all (\<lambda>l. 1 \<le> cl_quantity l) c"

definition saveCart :: "env \<Rightarrow> string \<Rightarrow> cart_line list \<Rightarrow> db \<Rightarrow> db option" where
  "saveCart ev userId c s =
     (if e_saveFails ev \<or> \<not> validCart c then None
      else Some (s\<lparr>carts := (carts s)(userId \<mapsto> c)\<rparr>))"

text \<open>
  The body of the add handler on the lines of the cart: \<open>cart.products.find\<close> compares the
  rendered id of each line with the id string of the request and returns the first line
  that is equal, whose quantity is then increased in place; without such a line a new one
  is pushed, and the schema casts its id.
\<close>

definition addLine :: "string \<Rightarrow> string \<Rightarrow> rat \<Rightarrow> cart_line list \<Rightarrow> cart_line list" where
  "addLine productId oid quantity cart =
     (case find (\<lambda>p. cl_productId p = productId) cart of
        Some existingProduct \<Rightarrow>
          updateFirst (\<lambda>p. cl_productId p = productId)
            (\<lambda>p. p\<lparr>cl_quantity := cl_quantity p + quantity\<rparr>) cart
      | None \<Rightarrow> cart @ [\<lparr>cl_productId = oid, cl_quantity = quantity\<rparr>])"

text \<open>\<open>POST /api/cart/add\<close>. A missing quantity is 1; a user without a cart document
  starts from an empty one.\<close>

definition addToCart :: "env \<Rightarrow> string \<Rightarrow> string \<Rightarrow> rat option \<Rightarrow> db \<Rightarrow> response \<times> db" where
  "addToCart ev userId productId sent s =
     (let quantity = (case sent of None \<Rightarrow> 1 | Some q \<Rightarrow> q)
      in case findById ev s productId of
           Thrown \<Rightarrow> (internalError, s)
         | Absent \<Rightarrow> (Response 404 (ErrorJson ''Product not found''), s)
         | Found oid product \<Rightarrow>
             if \<not> p_isActive product then (Response 404 (ErrorJson ''Product not found''), s)
             else
               let cart = (case carts s userId of None \<Rightarrow> [] | Some c \<Rightarrow> c)
               in (case saveCart ev userId (addLine productId oid quantity cart) s of
                     None \<Rightarrow> (internalError, s)
                   | Some s' \<Rightarrow>
                       (Response 200 (MessageJson ''Product added to cart successfully''), s')))"

text \<open>\<open>PUT /api/cart/update\<close>.\<close>

definition updateCart :: "env \<Rightarrow> string \<Rightarrow> string \<Rightarrow> rat \<Rightarrow> db \<Rightarrow> response \<times> db" where
  "updateCart ev userId productId quantity s =
     (if e_findFails ev then (internalError, s)
      else
        case carts s userId of
          None \<Rightarrow> (Response 404 (ErrorJson ''Cart not found''), s)
        | Some cart \<Rightarrow>
            (case findIndex (\<lambda>p. cl_productId p = productId) cart of
               None \<Rightarrow> (Response 404 (ErrorJson ''Product not found in cart''), s)
             | Some productIndex \<Rightarrow>
                 let cart' = (if quantity \<le> 0 then splice1 productIndex cart
                              else cart[productIndex :=
                                     (cart ! productIndex)\<lparr>cl_quantity := quantity\<rparr>])
                 in (case saveCart ev userId cart' s of
                       None \<Rightarrow> (internalError, s)
                     | Some s' \<Rightarrow>
                         (Response 200 (MessageJson ''Cart updated successfully''), s'))))"

text \<open>\<open>DELETE /api/cart/remove/:productId\<close>.\<close>

definition removeFromCart :: "env \<Rightarrow> string \<Rightarrow> string \<Rightarrow> db \<Rightarrow> response \<times> db" where
  "removeFromCart ev userId productId s =
     (if e_findFails ev then (internalError, s)
      else
        case carts s userId of
          None \<Rightarrow> (Response 404 (ErrorJson ''Cart not found''), s)
        | Some cart \<Rightarrow>
            (case saveCart ev userId (filter (\<lambda>p. cl_productId p \<noteq> productId) cart) s of
               None \<Rightarrow> (internalError, s)
             | Some s' \<Rightarrow>
                 (Response 200 (MessageJson ''Product removed from cart successfully''), s')))"

text \<open>\<open>Cart.findOneAndUpdate({ userId }, { products: [] })\<close>: an existing cart is emptied,
  a missing one is not created.\<close>

definition clearCart :: "string \<Rightarrow> (string \<rightharpoonup> cart_line list) \<Rightarrow> (string \<rightharpoonup> cart_line list)" where
  "clearCart userId cs = (case cs userId of None \<Rightarrow> cs | Some c \<Rightarrow> cs(userId \<mapsto> []))"

subsection \<open>Overlapping adds\<close>

text \<open>
  Two add requests on one cart document overlap at their \<open>await\<close> points: each reads the
  document (\<open>Cart.findOne\<close>), changes its own copy and saves it. Mongoose saves the change
  only: a pushed line goes out as \<open>$push\<close> onto the stored array and raises the version of
  the document; a changed quantity goes out as \<open>$set\<close> of the line at its index, on
  condition that the version is the one that was read, and is refused otherwise
  (\<open>VersionError\<close>). The validation runs on the copy. The product of the request is taken
  as found and active, and its id in rendered form.
\<close>

record cart_doc =
  cd_products :: "cart_line list"
  cd_version :: nat

record pending_add =
  pa_request :: string
  pa_productId :: string
  pa_quantity :: rat
  pa_read :: cart_doc

datatype cart_event = AddRead string string rat | AddSave string

record adds =
  document :: cart_doc
  reading :: "pending_add list"
  refused :: "string list"

definition saveAdd :: "pending_add \<Rightarrow> cart_doc \<Rightarrow> cart_doc option" where
  "saveAdd p d =
     (let copy = cd_products (pa_read p)
      in if \<not> validCart (addLine (pa_productId p) (pa_productId p) (pa_quantity p) copy)
         then None
         else
           case findIndex (\<lambda>l. cl_productId l = pa_productId p) copy of
             None \<Rightarrow>
               Some \<lparr>cd_products = cd_products d @
                        [\<lparr>cl_productId = pa_productId p, cl_quantity = pa_quantity p\<rparr>],
                      cd_version = cd_version d + 1\<rparr>
           | Some i \<Rightarrow>
               if cd_version d \<noteq> cd_version (pa_read p) then None
               else Some (d\<lparr>cd_products := (cd_products d)
                             [i := (cd_products d ! i)
                                \<lparr>cl_quantity := cl_quantity (copy ! i) + pa_quantity p\<rparr>]\<rparr>))"

fun cart_step :: "cart_event \<Rightarrow> adds \<Rightarrow> adds" where
  "cart_step (AddRead r productId quantity) st =
     st\<lparr>reading := reading st @
          [\<lparr>pa_request = r, pa_productId = productId, pa_quantity = quantity,
            pa_read = document st\<rparr>]\<rparr>"
| "cart_step (AddSave r) st =
     (case find (\<lambda>p. pa_request p = r) (reading st) of
        None \<Rightarrow> st
      | Some p \<Rightarrow>
          (case saveAdd p (document st) of
             None \<Rightarrow> st\<lparr>reading := deleteOne (\<lambda>p. pa_request p = r) (reading st),
                        refused := refused st @ [r]\<rparr>
           | Some d \<Rightarrow> st\<lparr>document := d,
                          reading := deleteOne (\<lambda>p. pa_request p = r) (reading st)\<rparr>))"

fun cart_run :: "cart_event list \<Rightarrow> adds \<Rightarrow> adds" where
  "cart_run [] st = st"
| "cart_run (e # es) st = cart_run es (cart_step e st)"

section \<open>Order workflow\<close>

subsection \<open>Order numbers\<close>

text \<open>The character of a decimal digit.\<close>

definition digitChar :: "nat \<Rightarrow> char" where
  "digitChar d = ''0123456789'' ! d"

text \<open>Decimal rendering of a non-negative integer, as a template literal or \<open>String(n)\<close>
  gives it.\<close>

function showNat :: "nat \<Rightarrow> string" where
  "showNat n = (if n < 10 then [digitChar n] else showNat (n div 10) @ [digitChar (n mod 10)])"
  by pat_completeness auto
termination
  by (relation "measure id") auto

declare showNat.simps [simp del]

text \<open>\<open>padStart(4, '0')\<close>.\<close>

definition padStart4 :: "string \<Rightarrow> string" where
  "padStart4 str = replicate (4 - length str) (CHR ''0'') @ str"

text \<open>The template \<open>ORD${Date.now()}${String(count + 1).padStart(4, '0')}\<close>.\<close>

definition orderNumberFor :: "nat \<Rightarrow> nat \<Rightarrow> string" where
  "orderNumberFor now count = ''ORD'' @ showNat now @ padStart4 (showNat (count + 1))"

text \<open>
  \<open>orderSchema.pre('save')\<close>: an order without a number gets one from the clock and from
  \<open>countDocuments()\<close>, here the size of the collection at the time the hook runs.
\<close>

definition preSave :: "nat \<Rightarrow> order list \<Rightarrow> order \<Rightarrow> order" where
  "preSave now coll ord =
     (if o_orderNumber ord = [] then ord\<lparr>o_orderNumber := orderNumberFor now (length coll)\<rparr>
      else ord)"

text \<open>The insert, under the unique index that \<open>orderNumber: { unique: true }\<close> declares.\<close>

definition insertOrder :: "order \<Rightarrow> order list \<Rightarrow> order list option" where
  "insertOrder ord coll =
     (if o_orderNumber ord \<in> set (map o_orderNumber coll) then None else Some (coll @ [ord]))"

text \<open>Schema validation of an order: \<open>min: 1\<close> on each quantity, the \<open>enum\<close> of payment
  methods and the four required address fields.\<close>

definition validAddress :: "address \<Rightarrow> bool" where
  "validAddress a = (a_name a \<noteq> [] \<and> a_phone a \<noteq> [] \<and> a_pincode a \<noteq> [] \<and> a_address a \<noteq> [])"

definition validOrder :: "order \<Rightarrow> bool" where
  "validOrder ord =
     (list_all (\<lambda>l. 1 \<le> ol_quantity l) (o_products ord) \<and>
      o_paymentMethod ord \<in> set [''Cash on Delivery'', ''Credit/Debit Card'', ''UPI''] \<and>
      validAddress (o_deliveryAddress ord))"

text \<open>\<open>order.save()\<close>: validation, the pre-save hook, the insert. The result is the saved
  document and the new state, or \<open>None\<close> for a rejected promise.\<close>

definition saveOrder :: "env \<Rightarrow> order \<Rightarrow> db \<Rightarrow> (order \<times> db) option" where
  "saveOrder ev ord s =
     (if e_saveFails ev \<or> \<not> validOrder ord then None
      else
        let ord' = preSave (e_now ev) (orders s) ord
        in (case insertOrder ord' (orders s) of
              None \<Rightarrow> None
            | Some coll \<Rightarrow> Some (ord', s\<lparr>orders := coll\<rparr>)))"

subsection \<open>The request\<close>

text \<open>A line of the request carries whatever the client sent, a price included; the body
  carries the client's own total.\<close>

record item =
  i_productId :: string
  i_quantity :: rat
  i_price :: "rat option"

record order_body =
  ob_products :: "item list"
  ob_deliveryAddress :: address
  ob_paymentMethod :: string
  ob_totalAmount :: "rat option"

text \<open>
  The \<open>for (const item of products)\<close> loop with its two accumulators. \<open>Inl\<close> is the way out
  of the loop before its end: the early return, carrying the id of the product that was
  not found or not active, or the exception of a lookup that throws. A line of the order
  gets the product's id as the schema casts it.
\<close>

datatype abort = NotFound string | Threw

fun validateProducts ::
  "(string \<Rightarrow> lookup) \<Rightarrow> item list \<Rightarrow> rat \<Rightarrow> order_line list \<Rightarrow> abort + rat \<times> order_line list"
where
  "validateProducts look [] calculatedTotal orderProducts = Inr (calculatedTotal, orderProducts)"
| "validateProducts look (it # its) calculatedTotal orderProducts =
     (case look (i_productId it) of
        Thrown \<Rightarrow> Inl Threw
      | Absent \<Rightarrow> Inl (NotFound (i_productId it))
      | Found oid product \<Rightarrow>
          if \<not> p_isActive product then Inl (NotFound (i_productId it))
          else validateProducts look its
                 (calculatedTotal + p_price product * i_quantity it)
                 (orderProducts @ [\<lparr>ol_productId = oid,
                                     ol_quantity = i_quantity it,
                                     ol_price = p_price product\<rparr>]))"

text \<open>The confirmation mail: \<open>User.findById\<close> and \<open>sendMail\<close> inside one \<open>try\<close>; a rejected
  read, a missing user or a failing transport leaves the state as it is.\<close>

definition sendConfirmation :: "env \<Rightarrow> string \<Rightarrow> order \<Rightarrow> db \<Rightarrow> db" where
  "sendConfirmation ev userId ord s =
     (if e_findFails ev then s
      else
        case find (\<lambda>u. u_id u = userId) (users s) of
          None \<Rightarrow> s
        | Some usr \<Rightarrow>
            (case sendMail ev \<lparr>m_to = u_email usr,
                     m_subject = ''Order Confirmation - '' @ o_orderNumber ord\<rparr> s of
               None \<Rightarrow> s | Some s' \<Rightarrow> s'))"

text \<open>\<open>new Order({ ... })\<close> after the loop: the delivery charge is added to the running
  total, and the document has no order number yet. The clock is in milliseconds here.\<close>

definition newOrder :: "env \<Rightarrow> string \<Rightarrow> order_body \<Rightarrow> rat \<Rightarrow> order_line list \<Rightarrow> order" where
  "newOrder ev userId b itemsTotal orderProducts =
     (let deliveryCharge = 3;
          calculatedTotal = itemsTotal + deliveryCharge
      in \<lparr>o_id = e_newId ev,
          o_userId = userId,
          o_orderNumber = [],
          o_products = orderProducts,
          o_deliveryAddress = ob_deliveryAddress b,
          o_paymentMethod = ob_paymentMethod b,
          o_totalAmount = calculatedTotal,
          o_deliveryCharge = deliveryCharge,
          o_status = ''Placed'',
          o_estimatedDelivery = e_now ev + 5 * 24 * 60 * 60 * 1000\<rparr>)"

text \<open>\<open>POST /api/orders\<close>.\<close>

definition createOrder :: "env \<Rightarrow> string \<Rightarrow> order_body \<Rightarrow> db \<Rightarrow> response \<times> db" where
  "createOrder ev userId b s =
     (case validateProducts (findById ev s) (ob_products b) 0 [] of
        Inl Threw \<Rightarrow> (internalError, s)
      | Inl (NotFound productId) \<Rightarrow>
          (Response 400 (ErrorJson (''Product '' @ productId @ '' not found'')), s)
      | Inr (itemsTotal, orderProducts) \<Rightarrow>
          (case saveOrder ev (newOrder ev userId b itemsTotal orderProducts) s of
             None \<Rightarrow> (internalError, s)
           | Some (saved, s1) \<Rightarrow>
               if e_cartClearFails ev then (internalError, s1)
               else
                 let s2 = s1\<lparr>carts := clearCart userId (carts s1)\<rparr>;
                     s3 = sendConfirmation ev userId saved s2
                 in (Response 201 (OrderPlacedJson (o_id saved) (o_orderNumber saved)), s3)))"

text \<open>
  The total as the specification words it, for comparison with what the handler stores:
  the sum over the lines of catalog price times quantity, plus the delivery charge.
\<close>

definition spec_lineCost :: "(string \<Rightarrow> lookup) \<Rightarrow> item \<Rightarrow> rat" where
  "spec_lineCost look it =
     (case look (i_productId it) of
        Found oid product \<Rightarrow> p_price product * i_quantity it
      | _ \<Rightarrow> 0)"

definition spec_totalAmount :: "(string \<Rightarrow> lookup) \<Rightarrow> item list \<Rightarrow> rat \<Rightarrow> rat" where
  "spec_totalAmount look its deliveryCharge = sum_list (map (spec_lineCost look) its) + deliveryCharge"

text \<open>
  \<open>POST /api/orders\<close> of the earlier server: the body is stored as sent. Its schema
  requires a payment method and a total, and keeps product id and quantity of each line.
\<close>

definition createOrder_legacy ::
  "env \<Rightarrow> string \<Rightarrow> order_body \<Rightarrow> db_legacy \<Rightarrow> response \<times> db_legacy" where
  "createOrder_legacy ev userId b s =
     (case ob_totalAmount b of
        None \<Rightarrow> (internalError, s)
      | Some totalAmount \<Rightarrow>
          if e_saveFails ev \<or> ob_paymentMethod b = [] then (internalError, s)
          else
            let ord = \<lparr>lo_id = e_newId ev,
                       lo_userId = userId,
                       lo_products = map (\<lambda>it. \<lparr>cl_productId = i_productId it,
                                                 cl_quantity = i_quantity it\<rparr>) (ob_products b),
                       lo_deliveryAddress = ob_deliveryAddress b,
                       lo_paymentMethod = ob_paymentMethod b,
                       lo_totalAmount = totalAmount,
                       lo_status = ''Placed''\<rparr>;
                s1 = s\<lparr>orders_legacy := orders_legacy s @ [ord]\<rparr>
            in if e_cartClearFails ev then (internalError, s1)
               else (Response 201 (OrderPlacedLegacyJson (lo_id ord)),
                     s1\<lparr>carts_legacy := clearCart userId (carts_legacy s1)\<rparr>))"

subsection \<open>Overlapping saves\<close>

text \<open>
  Two requests overlap at their \<open>await\<close> points, so the pre-save hook of one request can
  run between the hook and the insert of another. A run is a list of such steps: \<open>Hook\<close>
  is the pre-save hook of a new document at a clock value, \<open>Insert\<close> is the insert of the
  in-flight document with the given id. The hook reads the count and then the clock; both
  belong to one step here, which leaves out runs where an insert falls between the two.
\<close>

datatype event = Hook order nat | Insert string

record saves =
  stored :: "order list"
  inflight :: "order list"
  rejected :: "string list"

fun step :: "event \<Rightarrow> saves \<Rightarrow> saves" where
  "step (Hook ord now) st = st\<lparr>inflight := inflight st @ [preSave now (stored st) ord]\<rparr>"
| "step (Insert oid) st =
     (case find (\<lambda>d. o_id d = oid) (inflight st) of
        None \<Rightarrow> st
      | Some ord \<Rightarrow>
          (case insertOrder ord (stored st) of
             None \<Rightarrow> st\<lparr>inflight := deleteOne (\<lambda>d. o_id d = oid) (inflight st),
                        rejected := rejected st @ [oid]\<rparr>
           | Some coll \<Rightarrow> st\<lparr>stored := coll,
                             inflight := deleteOne (\<lambda>d. o_id d = oid) (inflight st)\<rparr>))"

fun run :: "event list \<Rightarrow> saves \<Rightarrow> saves" where
  "run [] st = st"
| "run (e # es) st = run es (step e st)"

section \<open>Sample data\<close>

text \<open>A small shop: one registered customer, two active products and a withdrawn one, a
  cart with one line. The theorems below are instantiated on it. Ids are ObjectIds in
  their rendered form; \<open>shirtIdUpper\<close> is the id of the shirt written in upper case.\<close>

definition aliceId :: string where
  "aliceId = ''64b7f0c2a1d3e4f5a6b7c8a1''"

definition shirtId :: string where
  "shirtId = ''64b7f0c2a1d3e4f5a6b7c801''"

definition shirtIdUpper :: string where
  "shirtIdUpper = ''64B7F0C2A1D3E4F5A6B7C801''"

definition scarfId :: string where
  "scarfId = ''64b7f0c2a1d3e4f5a6b7c802''"

definition tieId :: string where
  "tieId = ''64b7f0c2a1d3e4f5a6b7c803''"

definition orderId1 :: string where
  "orderId1 = ''64b7f0c2a1d3e4f5a6b7c8f1''"

definition orderId2 :: string where
  "orderId2 = ''64b7f0c2a1d3e4f5a6b7c8f2''"

definition alice :: user where
  "alice = \<lparr>u_id = aliceId, u_username = ''alice'', u_email = ''alice@x.com'',
             u_password = bcrypt_hash ''secret1'' 12, u_firstname = ''Alice'',
             u_isActive = True, u_lastLogin = None\<rparr>"

definition shirt :: product where
  "shirt = \<lparr>p_price = 100, p_isActive = True\<rparr>"

definition scarf :: product where
  "scarf = \<lparr>p_price = 40, p_isActive = False\<rparr>"

definition tie :: product where
  "tie = \<lparr>p_price = 25, p_isActive = True\<rparr>"

definition shop :: db where
  "shop = \<lparr>users = [alice],
            products = [shirtId \<mapsto> shirt, scarfId \<mapsto> scarf, tieId \<mapsto> tie],
            carts = [aliceId \<mapsto> [\<lparr>cl_productId = shirtId, cl_quantity = 2\<rparr>]],
            orders = [],
            resets = [],
            outbox = []\<rparr>"

definition calm :: env where
  "calm = \<lparr>e_now = 1700000000000, e_newId = orderId1, e_development = False,
            e_cast = hexObjectId, e_secretSet = True, e_findFails = False,
            e_saveFails = False, e_upsertFails = False, e_cartClearFails = False,
            e_mailFails = False\<rparr>"

definition home :: address where
  "home = \<lparr>a_name = ''Alice'', a_phone = ''9000000000'', a_pincode = ''500001'',
            a_address = ''1 Main Road''\<rparr>"

definition basket :: order_body where
  "basket = \<lparr>ob_products = [\<lparr>i_productId = shirtId, i_quantity = 2, i_price = Some 1\<rparr>],
              ob_deliveryAddress = home,
              ob_paymentMethod = ''UPI'',
              ob_totalAmount = Some 1\<rparr>"

definition shop_legacy :: db_legacy where
  "shop_legacy = \<lparr>users_legacy = [],
                   products_legacy = [shirtId \<mapsto> \<lparr>lp_price = 100\<rparr>],
                   carts_legacy = [aliceId \<mapsto> [\<lparr>cl_productId = shirtId, cl_quantity = 2\<rparr>]],
                   orders_legacy = [],
                   resets_legacy = []\<rparr>"

definition signup :: reg_body where
  "signup = \<lparr>rb_username = ''carol'', rb_email = ''carol@x.com'', rb_password = ''secret2'',
              rb_firstname = ''Carol''\<rparr>"

definition signup_again :: reg_body where
  "signup_again = \<lparr>rb_username = ''caroline'', rb_email = ''Carol@X.com'',
                    rb_password = ''secret3'', rb_firstname = ''Caroline''\<rparr>"



text \<open>Requests with a line that cannot be ordered: a withdrawn product, and an id that is
  no ObjectId.\<close>

definition withdrawn_basket :: order_body where
  "withdrawn_basket = basket\<lparr>ob_products :=
       [\<lparr>i_productId = shirtId, i_quantity = 2, i_price = None\<rparr>,
        \<lparr>i_productId = scarfId, i_quantity = 1, i_price = None\<rparr>]\<rparr>"

definition malformed_basket :: order_body where
  "malformed_basket = basket\<lparr>ob_products :=
       [\<lparr>i_productId = shirtId, i_quantity = 2, i_price = None\<rparr>,
        \<lparr>i_productId = ''pB'', i_quantity = 1, i_price = None\<rparr>]\<rparr>"

text \<open>Environments in which one call fails.\<close>

definition cart_down :: env where
  "cart_down = calm\<lparr>e_cartClearFails := True\<rparr>"

definition mail_down :: env where
  "mail_down = calm\<lparr>e_mailFails := True\<rparr>"

definition upsert_down :: env where
  "upsert_down = calm\<lparr>e_upsertFails := True\<rparr>"

definition first_order :: order where
  "first_order = \<lparr>o_id = orderId1, o_userId = aliceId,
       o_orderNumber = ''ORD17000000000000001'',
       o_products = [\<lparr>ol_productId = shirtId, ol_quantity = 2, ol_price = 100\<rparr>],
       o_deliveryAddress = home, o_paymentMethod = ''UPI'', o_totalAmount = 203,
       o_deliveryCharge = 3, o_status = ''Placed'', o_estimatedDelivery = 1700432000000\<rparr>"

text \<open>Two unnumbered order documents, as \<open>new Order\<close> builds them for two requests, and
  an order collection with no save under way.\<close>

definition draft1 :: order where
  "draft1 = newOrder calm aliceId basket 200
              [\<lparr>ol_productId = shirtId, ol_quantity = 2, ol_price = 100\<rparr>]"

definition draft2 :: order where
  "draft2 = draft1\<lparr>o_id := orderId2\<rparr>"

definition idle :: saves where
  "idle = \<lparr>stored = [], inflight = [], rejected = []\<rparr>"

text \<open>The cart document of the sample customer with no add under way.\<close>

definition quiet :: adds where
  "quiet = \<lparr>document = \<lparr>cd_products = [\<lparr>cl_productId = shirtId, cl_quantity = 2\<rparr>],
                           cd_version = 0\<rparr>,
             reading = [], refused = []\<rparr>"

section \<open>Evaluation of the sample data\<close>

lemma toLowerCase_samples:
  "toLowerCase ''carol'' = ''carol''"
  "toLowerCase ''carol@x.com'' = ''carol@x.com''"
  "toLowerCase ''caroline'' = ''caroline''"
  "toLowerCase ''Carol@X.com'' = ''carol@x.com''"
  "toLowerCase ''Alice@X.com'' = ''alice@x.com''"
  "toLowerCase ''alice@x.com'' = ''alice@x.com''"
  "toLowerCase ''bob@x.com'' = ''bob@x.com''"
  "toLowerCase ''Alice'' = ''alice''"
  "toLowerCase ''alice'' = ''alice''"
  "toLowerCase ''bob'' = ''bob''"
  by code_simp+


lemma hexObjectId_samples:
  "hexObjectId shirtId = Some shirtId"
  "hexObjectId scarfId = Some scarfId"
  "hexObjectId tieId = Some tieId"
  "hexObjectId shirtIdUpper = Some shirtId"
  "hexObjectId ''pB'' = None"
  by code_simp+

lemma sample_ids_differ:
  "shirtId \<noteq> scarfId" "shirtId \<noteq> tieId" "scarfId \<noteq> tieId" "shirtIdUpper \<noteq> shirtId"
  "scarfId \<noteq> shirtId" "tieId \<noteq> shirtId" "tieId \<noteq> scarfId" "shirtId \<noteq> shirtIdUpper"
  "orderId1 \<noteq> orderId2" "orderId2 \<noteq> orderId1"
  by (simp_all add: shirtId_def scarfId_def tieId_def shirtIdUpper_def orderId1_def orderId2_def)

section \<open>Login\<close>






section \<open>Forgotten passwords\<close>

lemma forgotPassword_string:
  "fst (forgotPassword ev (Str str) s) =
     (if e_findFails ev then internalError
      else
        case find (\<lambda>u. u_email u = toLowerCase str) (users s) of
          None \<Rightarrow> Response 400 (ErrorJson ''User with this email does not exist'')
        | Some usr \<Rightarrow>
            if \<not> e_secretSet ev \<or> e_upsertFails ev then internalError
            else
              Response 200 (ResetLinkJson ''Password reset link sent to your email''
                (if e_development ev then Some (jwt_sign (toLowerCase str) (e_now ev)) else None)))"
  by (cases "find (\<lambda>u. u_email u = toLowerCase str) (users s)")
     (simp_all add: forgotPassword_def Let_def)

lemma forgotPassword_unknown:
  assumes "\<not> e_findFails ev"
    and "\<not> (\<exists>u \<in> set (users s). u_email u = toLowerCase str)"
  shows "forgotPassword ev (Str str) s =
           (Response 400 (ErrorJson ''User with this email does not exist''), s)"
proof -
  have "find (\<lambda>u. u_email u = toLowerCase str) (users s) = None"
    using assms(2) by (auto simp: find_None_iff)
  with assms(1) show ?thesis by (simp add: forgotPassword_def)
qed

lemma forgotPassword_known:
  assumes "\<not> e_findFails ev"
    and "\<exists>u \<in> set (users s). u_email u = toLowerCase str"
  shows "fst (forgotPassword ev (Str str) s) =
     (if \<not> e_secretSet ev \<or> e_upsertFails ev then internalError
      else Response 200 (ResetLinkJson ''Password reset link sent to your email''
             (if e_development ev then Some (jwt_sign (toLowerCase str) (e_now ev)) else None)))"
proof -
  obtain usr where "find (\<lambda>u. u_email u = toLowerCase str) (users s) = Some usr"
    using assms(2) by (cases "find (\<lambda>u. u_email u = toLowerCase str) (users s)")
      (auto simp: find_None_iff)
  with assms(1) show ?thesis by (simp add: forgotPassword_string)
qed

lemma forgotPassword_not_text: "forgotPassword ev (NonStr v) s = (internalError, s)"
  by (simp add: forgotPassword_def)

lemma forgotPassword_read_fails:
  assumes "e_findFails ev"
  shows "forgotPassword ev (Str str) s = (internalError, s)"
  using assms by (simp add: forgotPassword_def)

lemma forgotPassword_body_iff:
  "(fst (forgotPassword ev email s) =
      Response 400 (ErrorJson ''User with this email does not exist'')) =
   (\<exists>str. email = Str str \<and> \<not> e_findFails ev \<and>
      \<not> (\<exists>u \<in> set (users s). u_email u = toLowerCase str))"
proof (cases email)
  case (NonStr v)
  then show ?thesis by (simp add: forgotPassword_not_text internalError_def)
next
  case (Str str)
  show ?thesis
  proof (cases "e_findFails ev")
    case True
    with Str show ?thesis by (simp add: forgotPassword_read_fails internalError_def)
  next
    case False
    show ?thesis
    proof (cases "\<exists>u \<in> set (users s). u_email u = toLowerCase str")
      case True
      with Str False forgotPassword_known [OF False True] show ?thesis
        by (simp add: internalError_def)
    next
      case no: False
      with Str False forgotPassword_unknown [OF False no] show ?thesis by simp
    qed
  qed
qed

lemma forgotPassword_sent_iff:
  "(\<exists>m l. fst (forgotPassword ev email s) = Response 200 (ResetLinkJson m l)) =
   (\<exists>str. email = Str str \<and> \<not> e_findFails ev \<and>
      (\<exists>u \<in> set (users s). u_email u = toLowerCase str) \<and>
      e_secretSet ev \<and> \<not> e_upsertFails ev)"
proof (cases email)
  case (NonStr v)
  then show ?thesis by (simp add: forgotPassword_not_text internalError_def)
next
  case (Str str)
  show ?thesis
  proof (cases "e_findFails ev")
    case True
    with Str show ?thesis by (simp add: forgotPassword_read_fails internalError_def)
  next
    case False
    show ?thesis
    proof (cases "\<exists>u \<in> set (users s). u_email u = toLowerCase str")
      case True
      with Str False forgotPassword_known [OF False True] show ?thesis
        by (simp add: internalError_def)
    next
      case no: False
      with Str False forgotPassword_unknown [OF False no] show ?thesis by simp
    qed
  qed
qed

lemma forgotPassword_answers:
  "fst (forgotPassword ev email s) =
     Response 400 (ErrorJson ''User with this email does not exist'') \<or>
   fst (forgotPassword ev email s) = internalError \<or>
   (\<exists>m l. fst (forgotPassword ev email s) = Response 200 (ResetLinkJson m l))"
proof (cases email)
  case (NonStr v)
  then show ?thesis by (simp add: forgotPassword_not_text)
next
  case (Str str)
  then show ?thesis
    by (simp add: forgotPassword_string split: option.splits)
qed

text \<open>
  Claim C10, as stated, fails in both directions of its equivalence: for the email of a
  registered user the answer is the error 500 \<open>Internal server error\<close> when the reset
  ticket cannot be stored, and a request without an email is answered 500, not with the
  body \<open>User with this email does not exist\<close>.
\<close>

theorem forgotPassword_error_for_registered_email:
  "alice \<in> set (users shop) \<and>
   u_email alice = toLowerCase ''alice@x.com'' \<and>
   isError (fst (forgotPassword upsert_down (Str ''alice@x.com'') shop)) \<and>
   fst (forgotPassword upsert_down (Str ''alice@x.com'') shop) =
     Response 500 (ErrorJson ''Internal server error'') \<and>
   fst (forgotPassword calm (NonStr []) shop) = Response 500 (ErrorJson ''Internal server error'')"
  by (simp add: forgotPassword_def toLowerCase_samples shop_def alice_def upsert_down_def
        calm_def internalError_def)

text \<open>
  Claim C10, amended. The forgot-password route of the current server answers 400
  \<open>User with this email does not exist\<close> exactly when the email is a string, the user
  lookup succeeds and no registered user has the lower-cased email. It answers 200
  exactly when the email is a string, the lookup succeeds, a registered user has the
  lower-cased email, the secret is set and the ticket is stored. Every other request is
  answered 500 \<open>Internal server error\<close>. So the body of the 400 tells any caller that the
  email has no account, and a 200 that it has one.
\<close>

theorem forgotPassword_reveals_account:
  "(fst (forgotPassword ev email s) =
      Response 400 (ErrorJson ''User with this email does not exist'')) =
     (\<exists>str. email = Str str \<and> \<not> e_findFails ev \<and>
        \<not> (\<exists>u \<in> set (users s). u_email u = toLowerCase str)) \<and>
   (\<exists>m l. fst (forgotPassword ev email s) = Response 200 (ResetLinkJson m l)) =
     (\<exists>str. email = Str str \<and> \<not> e_findFails ev \<and>
        (\<exists>u \<in> set (users s). u_email u = toLowerCase str) \<and>
        e_secretSet ev \<and> \<not> e_upsertFails ev) \<and>
   (fst (forgotPassword ev email s) =
      Response 400 (ErrorJson ''User with this email does not exist'') \<or>
    fst (forgotPassword ev email s) = internalError \<or>
    (\<exists>m l. fst (forgotPassword ev email s) = Response 200 (ResetLinkJson m l)))"
  using forgotPassword_body_iff [of ev email s] forgotPassword_sent_iff [of ev email s]
    forgotPassword_answers [of ev email s]
  by blast

theorem forgotPassword_reveals_account_witness:
  "fst (forgotPassword calm (Str ''bob@x.com'') shop) =
     Response 400 (ErrorJson ''User with this email does not exist'') \<and>
   fst (forgotPassword calm (Str ''Alice@X.com'') shop) \<noteq>
     Response 400 (ErrorJson ''User with this email does not exist'')"
proof -
  have calm: "\<not> e_findFails calm" by (simp add: calm_def)
  have unknown: "\<not> (\<exists>u \<in> set (users shop). u_email u = toLowerCase ''bob@x.com'')"
    by (simp add: shop_def alice_def toLowerCase_samples)
  have registered: "\<exists>u \<in> set (users shop). u_email u = toLowerCase ''Alice@X.com''"
    by (simp add: shop_def alice_def toLowerCase_samples)
  from forgotPassword_reveals_account [of calm "Str ''bob@x.com''" shop] calm unknown
  have a: "fst (forgotPassword calm (Str ''bob@x.com'') shop) =
      Response 400 (ErrorJson ''User with this email does not exist'')"
    by blast
  from forgotPassword_reveals_account [of calm "Str ''Alice@X.com''" shop] calm registered
  have b: "fst (forgotPassword calm (Str ''Alice@X.com'') shop) \<noteq>
      Response 400 (ErrorJson ''User with this email does not exist'')"
    by blast
  from a b show ?thesis by blast
qed

text \<open>
  The earlier server, on an email sent as a string, answers in the same way; it compares
  the email as sent, and signing cannot fail there.
\<close>

lemma forgotPassword_legacy_reveals_account:
  "(fst (forgotPassword_legacy ev email t) =
      Response 400 (ErrorJson ''User with this email does not exist'')) =
     (\<not> e_findFails ev \<and> \<not> (\<exists>u \<in> set (users_legacy t). lu_email u = email)) \<and>
   (\<exists>m l. fst (forgotPassword_legacy ev email t) = Response 200 (ResetLinkJson m l)) =
     (\<not> e_findFails ev \<and> (\<exists>u \<in> set (users_legacy t). lu_email u = email) \<and>
      \<not> e_upsertFails ev)"
proof (cases "find (\<lambda>u. lu_email u = email) (users_legacy t)")
  case None
  then have "\<not> (\<exists>u \<in> set (users_legacy t). lu_email u = email)"
    by (auto simp: find_None_iff)
  with None show ?thesis
    by (simp add: forgotPassword_legacy_def internalError_def)
next
  case (Some usr)
  then have "\<exists>u \<in> set (users_legacy t). lu_email u = email"
    by (auto simp: find_Some_iff)
  with Some show ?thesis
    by (simp add: forgotPassword_legacy_def internalError_def Let_def)
qed

section \<open>Registration\<close>

text \<open>
  The current server lower-cases username and email before the lookup and before the
  insert: a request whose lower-cased username or email is already stored is rejected
  with status 400 and changes nothing.
\<close>

lemma register_rejects_stored:
  assumes "u \<in> set (users s)"
    and "u_username u = toLowerCase (rb_username b) \<or> u_email u = toLowerCase (rb_email b)"
  shows "register ev b s = (Response 400 (ErrorJson ''Username or email already exists''), s)"
proof -
  obtain x where "find (\<lambda>u. u_username u = toLowerCase (rb_username b) \<or>
                          u_email u = toLowerCase (rb_email b)) (users s) = Some x"
    using assms by (cases "find (\<lambda>u. u_username u = toLowerCase (rb_username b) \<or>
                          u_email u = toLowerCase (rb_email b)) (users s)")
      (auto simp: find_None_iff)
  then show ?thesis by (simp add: register_def)
qed

lemma register_stores_lower_case:
  assumes "register ev b s = (Response 201 m, s')"
  shows "\<exists>u \<in> set (users s'). u_username u = toLowerCase (rb_username b) \<and>
                              u_email u = toLowerCase (rb_email b)"
  using assms
  by (auto simp: register_def Let_def sendMail_def internalError_def
           split: option.splits if_splits)

lemma register_rejects_case_variant:
  assumes "register ev b s = (Response 201 m, s')"
    and "toLowerCase (rb_username b') = toLowerCase (rb_username b) \<or>
         toLowerCase (rb_email b') = toLowerCase (rb_email b)"
  shows "register ev' b' s' = (Response 400 (ErrorJson ''Username or email already exists''), s')"
proof -
  obtain u where "u \<in> set (users s')" and "u_username u = toLowerCase (rb_username b)"
    and "u_email u = toLowerCase (rb_email b)"
    using register_stores_lower_case [OF assms(1)] by blast
  with assms(2) show ?thesis
    by (intro register_rejects_stored [of u]) auto
qed

lemma register_sample:
  "register calm signup shop =
     (Response 201 (MessageJson ''User registered successfully''),
      shop\<lparr>users := [alice, \<lparr>u_id = orderId1, u_username = ''carol'', u_email = ''carol@x.com'',
                u_password = Bcrypt 12 ''secret2'', u_firstname = ''Carol'',
                u_isActive = True, u_lastLogin = None\<rparr>],
           outbox := [\<lparr>m_to = ''carol@x.com'',
                      m_subject = ''Welcome to Rudra Tailoring Shop!''\<rparr>]\<rparr>)"
  by (simp add: register_def signup_def shop_def alice_def calm_def sendMail_def
        bcrypt_hash_def toLowerCase_samples)

lemma register_case_variant_example:
  "fst (register calm signup_again (snd (register calm signup shop))) =
     Response 400 (ErrorJson ''Username or email already exists'')"
proof -
  have "toLowerCase (rb_username signup_again) = toLowerCase (rb_username signup) \<or>
        toLowerCase (rb_email signup_again) = toLowerCase (rb_email signup)"
    by (simp add: signup_def signup_again_def toLowerCase_samples)
  from register_rejects_case_variant [OF register_sample this, of calm]
  show ?thesis by (simp add: register_sample)
qed

text \<open>
  Claim C9: a registration whose username or email differs from a stored one only in
  letter case is rejected as a duplicate. The current server does this (lemmas
  \<open>register_rejects_case_variant\<close>, \<open>register_case_variant_example\<close>). The earlier
  server compares and stores username and email as sent: after \<open>carol@x.com\<close> has
  registered, a registration with \<open>Carol@X.com\<close> and another username is accepted, and
  the collection then holds both users.
\<close>

theorem register_legacy_accepts_case_variant:
  "toLowerCase (rb_email signup_again) = toLowerCase (rb_email signup) \<and>
   fst (register_legacy calm signup shop_legacy) =
     Response 201 (MessageJson ''User registered successfully'') \<and>
   fst (register_legacy calm signup_again (snd (register_legacy calm signup shop_legacy))) =
     Response 201 (MessageJson ''User registered successfully'') \<and>
   map lu_email (users_legacy
     (snd (register_legacy calm signup_again (snd (register_legacy calm signup shop_legacy))))) =
     [''carol@x.com'', ''Carol@X.com'']"
  by (simp add: register_legacy_def signup_def signup_again_def shop_legacy_def calm_def
        toLowerCase_samples)

section \<open>Password-reset tickets\<close>

















section \<open>Carts\<close>



lemma findIndex_found:
  assumes "k \<in> g ` set xs"
  shows "\<exists>i. findIndex (\<lambda>x. g x = k) xs = Some i"
  using assms by (induction xs) auto


lemma carts_update_unique:
  assumes "\<forall>u c. cs u = Some c \<longrightarrow> distinct (map cl_productId c)"
    and "distinct (map cl_productId c')"
  shows "\<forall>u c. (cs(userId \<mapsto> c')) u = Some c \<longrightarrow> distinct (map cl_productId c)"
  using assms by simp

lemma saveOrder_frame:
  assumes "saveOrder ev ord s = Some (saved, s1)"
  shows "carts s1 = carts s \<and> users s1 = users s \<and> outbox s1 = outbox s \<and>
         products s1 = products s \<and> resets s1 = resets s \<and>
         orders s1 = orders s @ [saved] \<and> saved = preSave (e_now ev) (orders s) ord"
  using assms
  by (auto simp: saveOrder_def insertOrder_def Let_def split: if_splits)

lemma validCart_filter:
  assumes "validCart cart"
  shows "validCart (filter P cart)"
  using assms by (induction cart) (simp_all add: validCart_def)


lemma carts_update_keeps:
  assumes "\<forall>u c. cs u = Some c \<longrightarrow> Q c" and "Q c'"
  shows "\<forall>u c. (cs(userId \<mapsto> c')) u = Some c \<longrightarrow> Q c"
  using assms by simp





lemma saveCart_Some:
  assumes "saveCart ev userId c s = Some s'"
  shows "validCart c \<and> s' = s\<lparr>carts := (carts s)(userId \<mapsto> c)\<rparr>"
  using assms by (auto simp: saveCart_def split: if_splits)

lemma addToCart_carts:
  "carts (snd (addToCart ev userId productId sent s)) = carts s \<or>
   (\<exists>oid product.
      findById ev s productId = Found oid product \<and>
      validCart (addLine productId oid (case sent of None \<Rightarrow> 1 | Some q \<Rightarrow> q)
                   (case carts s userId of None \<Rightarrow> [] | Some c \<Rightarrow> c)) \<and>
      carts (snd (addToCart ev userId productId sent s)) =
        (carts s)(userId \<mapsto> addLine productId oid (case sent of None \<Rightarrow> 1 | Some q \<Rightarrow> q)
                               (case carts s userId of None \<Rightarrow> [] | Some c \<Rightarrow> c)))"
proof (cases "findById ev s productId")
  case Thrown
  then show ?thesis by (simp add: addToCart_def)
next
  case Absent
  then show ?thesis by (simp add: addToCart_def)
next
  case (Found oid product)
  show ?thesis
  proof (cases "saveCart ev userId
      (addLine productId oid (case sent of None \<Rightarrow> 1 | Some q \<Rightarrow> q)
         (case carts s userId of None \<Rightarrow> [] | Some c \<Rightarrow> c)) s")
    case None
    with Found show ?thesis by (simp add: addToCart_def Let_def)
  next
    case (Some s')
    from saveCart_Some [OF Some] Found Some show ?thesis
      by (simp add: addToCart_def Let_def)
  qed
qed


lemma updateCart_carts:
  "carts (snd (updateCart ev userId productId quantity s)) = carts s \<or>
   (\<exists>cart i. carts s userId = Some cart \<and>
      findIndex (\<lambda>p. cl_productId p = productId) cart = Some i \<and>
      validCart (if quantity \<le> 0 then splice1 i cart
                 else cart[i := (cart ! i)\<lparr>cl_quantity := quantity\<rparr>]) \<and>
      carts (snd (updateCart ev userId productId quantity s)) =
        (carts s)(userId \<mapsto> (if quantity \<le> 0 then splice1 i cart
                                else cart[i := (cart ! i)\<lparr>cl_quantity := quantity\<rparr>])))"
  by (simp add: updateCart_def saveCart_def Let_def split: option.splits)

lemma removeFromCart_carts:
  "carts (snd (removeFromCart ev userId productId s)) = carts s \<or>
   (\<exists>cart. carts s userId = Some cart \<and>
      validCart (filter (\<lambda>p. cl_productId p \<noteq> productId) cart) \<and>
      carts (snd (removeFromCart ev userId productId s)) =
        (carts s)(userId \<mapsto> filter (\<lambda>p. cl_productId p \<noteq> productId) cart))"
  by (simp add: removeFromCart_def saveCart_def split: option.splits)

lemma sendConfirmation_frame:
  "carts (sendConfirmation ev userId ord s) = carts s \<and>
   orders (sendConfirmation ev userId ord s) = orders s"
  by (simp add: sendConfirmation_def sendMail_def split: option.splits)

lemma createOrder_carts:
  "carts (snd (createOrder ev userId b s)) = carts s \<or>
   carts (snd (createOrder ev userId b s)) = clearCart userId (carts s)"
proof (cases "validateProducts (findById ev s) (ob_products b) 0 []")
  case (Inl a)
  then show ?thesis by (cases a) (simp_all add: createOrder_def)
next
  case (Inr r)
  obtain t ls where r: "r = (t, ls)" by (cases r)
  show ?thesis
  proof (cases "saveOrder ev (newOrder ev userId b t ls) s")
    case None
    with Inr r show ?thesis by (simp add: createOrder_def)
  next
    case (Some a)
    obtain saved s1 where a: "a = (saved, s1)" by (cases a)
    from saveOrder_frame [OF Some [unfolded a]] have "carts s1 = carts s" by simp
    with Inr r Some a show ?thesis
      by (simp add: createOrder_def Let_def sendConfirmation_frame)
  qed
qed

lemma clearCart_keeps:
  assumes "\<forall>u c. cs u = Some c \<longrightarrow> Q c" and "Q []"
  shows "\<forall>u c. clearCart userId cs u = Some c \<longrightarrow> Q c"
  using assms by (cases "cs userId") (simp_all add: clearCart_def)




subsection \<open>Overlapping adds\<close>

lemma findIndex_None: "(findIndex P xs = None) = (find P xs = None)"
  by (induction xs) (auto split: option.splits)

lemma updateFirst_at_index:
  assumes "findIndex P xs = Some i"
  shows "updateFirst P f xs = xs[i := f (xs ! i)]"
  using assms
proof (induction xs arbitrary: i)
  case Nil
  then show ?case by simp
next
  case (Cons x xs)
  show ?case
  proof (cases "P x")
    case True
    with Cons.prems show ?thesis by simp
  next
    case False
    with Cons.prems obtain j where j: "findIndex P xs = Some j" and i: "i = Suc j"
      by (auto split: option.splits)
    from Cons.IH [OF j] False i show ?thesis by simp
  qed
qed

text \<open>An add that reads and saves with no other add in between does to the stored lines
  what the handler does to them.\<close>

lemma add_alone:
  assumes "reading st = []"
  shows "cd_products (document (cart_run [AddRead r productId quantity, AddSave r] st)) =
     (if validCart (addLine productId productId quantity (cd_products (document st)))
      then addLine productId productId quantity (cd_products (document st))
      else cd_products (document st))"
proof (cases "findIndex (\<lambda>l. cl_productId l = productId) (cd_products (document st))")
  case None
  then have "find (\<lambda>l. cl_productId l = productId) (cd_products (document st)) = None"
    by (simp add: findIndex_None)
  with None assms show ?thesis
    by (simp add: saveAdd_def addLine_def Let_def)
next
  case (Some i)
  then have "find (\<lambda>l. cl_productId l = productId) (cd_products (document st)) \<noteq> None"
    using findIndex_None [of "\<lambda>l. cl_productId l = productId" "cd_products (document st)"]
    by simp
  then obtain l where "find (\<lambda>l. cl_productId l = productId) (cd_products (document st)) = Some l"
    by blast
  with Some assms
    updateFirst_at_index [OF Some, of "\<lambda>p. p\<lparr>cl_quantity := cl_quantity p + quantity\<rparr>"]
  show ?thesis
    by (simp add: saveAdd_def addLine_def Let_def)
qed

text \<open>Two adds of a product that is not in the cart, each reading the cart before the other
  saves: both push, and the cart holds two lines of the product.\<close>

lemma overlapping_adds_example:
  "cd_products (document (cart_run [AddRead ''r1'' tieId 1, AddRead ''r2'' tieId 1,
                                    AddSave ''r1'', AddSave ''r2''] quiet)) =
     [\<lparr>cl_productId = shirtId, cl_quantity = 2\<rparr>,
      \<lparr>cl_productId = tieId, cl_quantity = 1\<rparr>,
      \<lparr>cl_productId = tieId, cl_quantity = 1\<rparr>] \<and>
   refused (cart_run [AddRead ''r1'' tieId 1, AddRead ''r2'' tieId 1,
                      AddSave ''r1'', AddSave ''r2''] quiet) = []"
  by (simp add: quiet_def saveAdd_def addLine_def validCart_def sample_ids_differ Let_def)

subsection \<open>Updating a line\<close>

lemma findIndex_first:
  assumes "k \<notin> g ` set before" and "g x = k"
  shows "findIndex (\<lambda>y. g y = k) (before @ x # after) = Some (length before)"
  using assms by (induction before) auto

lemma validCart_append:
  "validCart (before @ line # after) =
     (validCart before \<and> 1 \<le> cl_quantity line \<and> validCart after)"
  by (simp add: validCart_def)

lemma validCart_Nil: "validCart []"
  by (simp add: validCart_def)

lemma validCart_drop_line:
  assumes "validCart (before @ line # after)"
  shows "validCart (before @ after)"
  using assms by (simp add: validCart_def)

text \<open>
  Claim C7, as stated, fails for a quantity between zero and one: the handler sets it, the
  schema refuses a quantity below 1, and the answer is 500 with the cart as it was.
\<close>

theorem updateCart_refuses_fraction:
  "carts shop aliceId = Some [\<lparr>cl_productId = shirtId, cl_quantity = 2\<rparr>] \<and>
   fst (updateCart calm aliceId shirtId (1 / 2) shop) =
     Response 500 (ErrorJson ''Internal server error'') \<and>
   carts (snd (updateCart calm aliceId shirtId (1 / 2) shop)) aliceId =
     Some [\<lparr>cl_productId = shirtId, cl_quantity = 2\<rparr>]"
  by (simp add: updateCart_def calm_def shop_def saveCart_def validCart_def internalError_def)

text \<open>
  Claim C7, amended. Every cart that the routes store has quantities of at least 1. On
  such carts, while the database answers, an update for a product id that the cart has
  a line of (the first line whose rendered id is the id string of the request) sets the
  quantity of that line when the requested quantity is at least 1, removes that line
  when the requested quantity is zero or below, and is refused with status 500 and no
  change when the requested quantity lies between zero and one. The other lines stay as
  they are.
\<close>

theorem updateCart_sets_or_removes:
  assumes "\<forall>u c. carts s u = Some c \<longrightarrow> validCart c"
    and "carts s userId = Some (before @ line # after)"
    and "productId \<notin> cl_productId ` set before"
    and "cl_productId line = productId"
    and "\<not> e_findFails ev" and "\<not> e_saveFails ev"
  shows "(1 \<le> quantity \<longrightarrow>
            updateCart ev userId productId quantity s =
              (Response 200 (MessageJson ''Cart updated successfully''),
               s\<lparr>carts := (carts s)(userId \<mapsto>
                    before @ line\<lparr>cl_quantity := quantity\<rparr> # after)\<rparr>)) \<and>
         (quantity \<le> 0 \<longrightarrow>
            updateCart ev userId productId quantity s =
              (Response 200 (MessageJson ''Cart updated successfully''),
               s\<lparr>carts := (carts s)(userId \<mapsto> before @ after)\<rparr>)) \<and>
         (0 < quantity \<and> quantity < 1 \<longrightarrow>
            updateCart ev userId productId quantity s = (internalError, s)) \<and>
         (\<forall>u c. carts (snd (updateCart ev' userId' productId' quantity' s)) u = Some c \<longrightarrow>
            validCart c) \<and>
         (\<forall>u c. carts (snd (addToCart ev' userId' productId' sent' s)) u = Some c \<longrightarrow>
            validCart c) \<and>
         (\<forall>u c. carts (snd (removeFromCart ev' userId' productId' s)) u = Some c \<longrightarrow>
            validCart c) \<and>
         (\<forall>u c. carts (snd (createOrder ev' userId' b' s)) u = Some c \<longrightarrow> validCart c)"
proof -
  let ?cart = "before @ line # after"
  have i: "findIndex (\<lambda>p. cl_productId p = productId) ?cart = Some (length before)"
    using findIndex_first [OF assms(3,4)] .
  from assms(1,2) have valid: "validCart ?cart" by simp
  have run: "updateCart ev userId productId quantity s =
      (let cart' = (if quantity \<le> 0 then before @ after
                    else before @ line\<lparr>cl_quantity := quantity\<rparr> # after)
       in if validCart cart'
          then (Response 200 (MessageJson ''Cart updated successfully''),
                s\<lparr>carts := (carts s)(userId \<mapsto> cart')\<rparr>)
          else (internalError, s))"
    using assms(5,6)
    by (simp add: updateCart_def assms(2) i saveCart_def splice1_def Let_def)
  have set_line: "updateCart ev userId productId quantity s =
      (Response 200 (MessageJson ''Cart updated successfully''),
       s\<lparr>carts := (carts s)(userId \<mapsto> before @ line\<lparr>cl_quantity := quantity\<rparr> # after)\<rparr>)"
    if "1 \<le> quantity"
    using that valid by (simp add: run validCart_append)
  have drop_line: "updateCart ev userId productId quantity s =
      (Response 200 (MessageJson ''Cart updated successfully''),
       s\<lparr>carts := (carts s)(userId \<mapsto> before @ after)\<rparr>)"
    if "quantity \<le> 0"
    using that validCart_drop_line [OF valid] by (simp add: run)
  have refuse: "updateCart ev userId productId quantity s = (internalError, s)"
    if "0 < quantity \<and> quantity < 1"
    using that by (simp add: run validCart_append)
  have upd: "\<forall>u c. carts (snd (updateCart ev' userId' productId' quantity' s)) u = Some c \<longrightarrow>
      validCart c"
    using updateCart_carts [of ev' userId' productId' quantity' s]
      carts_update_keeps [of "carts s" validCart, OF assms(1)]
    by (metis assms(1))
  have add: "\<forall>u c. carts (snd (addToCart ev' userId' productId' sent' s)) u = Some c \<longrightarrow>
      validCart c"
    using addToCart_carts [of ev' userId' productId' sent' s]
      carts_update_keeps [of "carts s" validCart, OF assms(1)]
    by (metis assms(1))
  have rem: "\<forall>u c. carts (snd (removeFromCart ev' userId' productId' s)) u = Some c \<longrightarrow>
      validCart c"
    using removeFromCart_carts [of ev' userId' productId' s]
      carts_update_keeps [of "carts s" validCart, OF assms(1)]
    by (metis assms(1))
  have ord: "\<forall>u c. carts (snd (createOrder ev' userId' b' s)) u = Some c \<longrightarrow> validCart c"
    using createOrder_carts [of ev' userId' b' s]
      clearCart_keeps [of "carts s" validCart, OF assms(1) validCart_Nil]
    by (metis assms(1))
  show ?thesis using set_line drop_line refuse upd add rem ord by blast
qed

theorem updateCart_sets_or_removes_witness:
  "carts (snd (updateCart calm aliceId shirtId 7 shop)) aliceId =
     Some [\<lparr>cl_productId = shirtId, cl_quantity = 7\<rparr>] \<and>
   carts (snd (updateCart calm aliceId shirtId 0 shop)) aliceId = Some [] \<and>
   fst (updateCart calm aliceId shirtId 0 shop) =
     Response 200 (MessageJson ''Cart updated successfully'') \<and>
   updateCart calm aliceId shirtId (1 / 2) shop = (internalError, shop)"
proof -
  have v: "\<forall>u c. carts shop u = Some c \<longrightarrow> validCart c"
    by (simp add: shop_def validCart_def)
  have c: "carts shop aliceId = Some ([] @ \<lparr>cl_productId = shirtId, cl_quantity = 2\<rparr> # [])"
    by (simp add: shop_def)
  have first: "shirtId \<notin> cl_productId ` set []" by simp
  have line: "cl_productId \<lparr>cl_productId = shirtId, cl_quantity = 2\<rparr> = shirtId" by simp
  have db: "\<not> e_findFails calm" "\<not> e_saveFails calm" by (simp_all add: calm_def)
  note upd = updateCart_sets_or_removes [OF v c first line db]
  from upd [of 7] have a: "carts (snd (updateCart calm aliceId shirtId 7 shop)) aliceId =
      Some [\<lparr>cl_productId = shirtId, cl_quantity = 7\<rparr>]"
    by simp
  from upd [of 0] have b: "carts (snd (updateCart calm aliceId shirtId 0 shop)) aliceId = Some []"
    and b': "fst (updateCart calm aliceId shirtId 0 shop) =
      Response 200 (MessageJson ''Cart updated successfully'')"
    by simp_all
  from upd [of "1 / 2"] have d: "updateCart calm aliceId shirtId (1 / 2) shop = (internalError, shop)"
    by simp
  from a b b' d show ?thesis by blast
qed

section \<open>Order placement\<close>

text \<open>The lookup depends on the environment only through the read failing and the cast.\<close>

lemma findById_env:
  assumes "e_findFails ev' = e_findFails ev" and "e_cast ev' = e_cast ev"
  shows "findById ev' s = findById ev s"
  by (rule ext) (simp add: findById_def assms)

text \<open>What the loop returns when it runs to its end: the running total has grown by
  catalog price times quantity of every line, and every product was found and active.\<close>

lemma validateProducts_Inr:
  assumes "validateProducts look its t acc = Inr (t', ls)"
  shows "t' = t + sum_list (map (spec_lineCost look) its) \<and>
         map ol_quantity ls = map ol_quantity acc @ map i_quantity its \<and>
         (\<forall>it \<in> set its. \<exists>oid product.
            look (i_productId it) = Found oid product \<and> p_isActive product)"
  using assms
proof (induction its arbitrary: t acc)
  case Nil
  then show ?case by simp
next
  case (Cons it its)
  from Cons.prems obtain oid product where p: "look (i_productId it) = Found oid product"
    and a: "p_isActive product"
    and rest: "validateProducts look its (t + p_price product * i_quantity it)
        (acc @ [\<lparr>ol_productId = oid, ol_quantity = i_quantity it,
                 ol_price = p_price product\<rparr>]) = Inr (t', ls)"
    by (auto split: lookup.splits if_splits)
  from Cons.IH [OF rest] p a show ?case by (simp add: spec_lineCost_def)
qed

text \<open>What the loop returns when it stops: the first line whose product is not found and
  active decides, by whether its lookup threw.\<close>

lemma validateProducts_Inl:
  assumes "\<forall>it \<in> set before. \<exists>oid product.
             look (i_productId it) = Found oid product \<and> p_isActive product"
    and "\<forall>oid product. look (i_productId bad) = Found oid product \<longrightarrow> \<not> p_isActive product"
  shows "validateProducts look (before @ bad # after) t acc =
           Inl (if look (i_productId bad) = Thrown then Threw
                else NotFound (i_productId bad))"
  using assms
proof (induction before arbitrary: t acc)
  case Nil
  then show ?case by (cases "look (i_productId bad)") simp_all
next
  case (Cons x xs)
  from Cons.prems(1) obtain oid product where x: "look (i_productId x) = Found oid product"
    and a: "p_isActive product"
    by auto
  from Cons.prems(1) have "\<forall>it \<in> set xs. \<exists>oid product.
      look (i_productId it) = Found oid product \<and> p_isActive product"
    by simp
  from Cons.IH [OF this Cons.prems(2)] x a show ?case by simp
qed

lemma validateProducts_ignores_price:
  "validateProducts look (map (\<lambda>it. it\<lparr>i_price := f it\<rparr>) its) t acc =
   validateProducts look its t acc"
  by (induction its arbitrary: t acc) (simp_all split: lookup.splits)

lemma createOrder_saved:
  assumes "validateProducts (findById ev s) (ob_products b) 0 [] = Inr (t, ls)"
    and "saveOrder ev (newOrder ev userId b t ls) s = Some (saved, s1)"
  shows "createOrder ev userId b s =
     (if e_cartClearFails ev then (internalError, s1)
      else (Response 201 (OrderPlacedJson (o_id saved) (o_orderNumber saved)),
            sendConfirmation ev userId saved (s1\<lparr>carts := clearCart userId (carts s1)\<rparr>)))"
  by (simp add: createOrder_def assms Let_def)

lemma createOrder_placed:
  assumes "createOrder ev userId b s = (Response 201 p, s')"
  shows "\<exists>t ls saved s1.
           validateProducts (findById ev s) (ob_products b) 0 [] = Inr (t, ls) \<and>
           saveOrder ev (newOrder ev userId b t ls) s = Some (saved, s1) \<and>
           \<not> e_cartClearFails ev \<and>
           p = OrderPlacedJson (o_id saved) (o_orderNumber saved) \<and>
           s' = sendConfirmation ev userId saved (s1\<lparr>carts := clearCart userId (carts s1)\<rparr>)"
proof (cases "validateProducts (findById ev s) (ob_products b) 0 []")
  case (Inl a)
  with assms show ?thesis
    by (cases a) (simp_all add: createOrder_def internalError_def)
next
  case (Inr r)
  obtain t ls where r: "r = (t, ls)" by (cases r)
  show ?thesis
  proof (cases "saveOrder ev (newOrder ev userId b t ls) s")
    case None
    with assms Inr r show ?thesis by (simp add: createOrder_def internalError_def)
  next
    case (Some a)
    obtain saved s1 where a: "a = (saved, s1)" by (cases a)
    from createOrder_saved [OF Inr [unfolded r] Some [unfolded a]] assms
    have "\<not> e_cartClearFails ev \<and>
        p = OrderPlacedJson (o_id saved) (o_orderNumber saved) \<and>
        s' = sendConfirmation ev userId saved (s1\<lparr>carts := clearCart userId (carts s1)\<rparr>)"
      by (auto simp: internalError_def split: if_splits)
    with Inr r Some a show ?thesis by blast
  qed
qed

text \<open>
  On the current server the stored total is the recomputed one: a placed order is the one
  new document of the collection, its total is the specification's sum over the catalog
  prices plus the delivery charge 3, and every line carries the requested quantity.
\<close>

lemma createOrder_total:
  assumes "createOrder ev userId b s = (Response 201 p, s')"
  shows "\<exists>ord. orders s' = orders s @ [ord] \<and>
           o_totalAmount ord = spec_totalAmount (findById ev s) (ob_products b) 3 \<and>
           o_deliveryCharge ord = 3 \<and>
           map ol_quantity (o_products ord) = map i_quantity (ob_products b)"
proof -
  from createOrder_placed [OF assms] obtain t ls saved s1
    where v: "validateProducts (findById ev s) (ob_products b) 0 [] = Inr (t, ls)"
      and sv: "saveOrder ev (newOrder ev userId b t ls) s = Some (saved, s1)"
      and s': "s' = sendConfirmation ev userId saved (s1\<lparr>carts := clearCart userId (carts s1)\<rparr>)"
    by blast
  from validateProducts_Inr [OF v]
  have t: "t = sum_list (map (spec_lineCost (findById ev s)) (ob_products b))"
    and q: "map ol_quantity ls = map i_quantity (ob_products b)" by simp_all
  from saveOrder_frame [OF sv]
  have o: "orders s1 = orders s @ [saved]"
    and saved: "saved = preSave (e_now ev) (orders s) (newOrder ev userId b t ls)" by simp_all
  have "orders s' = orders s @ [saved]"
    using s' o by (simp add: sendConfirmation_frame)
  moreover have "o_totalAmount saved = spec_totalAmount (findById ev s) (ob_products b) 3"
    using saved t by (simp add: preSave_def newOrder_def spec_totalAmount_def)
  moreover have "o_deliveryCharge saved = 3"
    using saved by (simp add: preSave_def newOrder_def)
  moreover have "map ol_quantity (o_products saved) = map i_quantity (ob_products b)"
    using saved q by (simp add: preSave_def newOrder_def)
  ultimately show ?thesis by blast
qed

text \<open>Neither the client's total nor a client's line price reaches the handler's result.\<close>

lemma createOrder_ignores_client_amounts:
  "createOrder ev userId
     (b\<lparr>ob_totalAmount := sent,
        ob_products := map (\<lambda>it. it\<lparr>i_price := f it\<rparr>) (ob_products b)\<rparr>) s =
   createOrder ev userId b s"
proof -
  have same: "newOrder ev userId
      (b\<lparr>ob_totalAmount := sent,
         ob_products := map (\<lambda>it. it\<lparr>i_price := f it\<rparr>) (ob_products b)\<rparr>) t ls =
      newOrder ev userId b t ls" for t ls
    by (simp add: newOrder_def)
  show ?thesis
    unfolding createOrder_def same by (simp add: validateProducts_ignores_price)
qed

subsection \<open>The sample order\<close>

lemma replicate_3: "replicate 3 c = [c, c, c]"
  by (simp add: numeral_3_eq_3)

lemma orderNumberFor_sample: "orderNumberFor 1700000000000 0 = ''ORD17000000000000001''"
  by (simp add: orderNumberFor_def showNat.simps padStart4_def digitChar_def replicate_3)

lemma findById_samples:
  assumes "\<not> e_findFails ev" and "e_cast ev = hexObjectId"
  shows "findById ev shop shirtId = Found shirtId shirt"
    and "findById ev shop scarfId = Found scarfId scarf"
    and "findById ev shop ''pB'' = Thrown"
  using assms
  by (simp_all add: findById_def hexObjectId_samples shop_def sample_ids_differ)

lemma validateProducts_sample:
  assumes "\<not> e_findFails ev" and "e_cast ev = hexObjectId"
  shows "validateProducts (findById ev shop) (ob_products basket) 0 [] =
     Inr (200, [\<lparr>ol_productId = shirtId, ol_quantity = 2, ol_price = 100\<rparr>])"
  by (simp add: findById_samples [OF assms] basket_def shirt_def)

lemma saveOrder_sample:
  assumes "e_now ev = 1700000000000" and "e_newId ev = orderId1" and "\<not> e_saveFails ev"
  shows "saveOrder ev (newOrder ev aliceId basket 200
             [\<lparr>ol_productId = shirtId, ol_quantity = 2, ol_price = 100\<rparr>]) shop =
           Some (first_order, shop\<lparr>orders := [first_order]\<rparr>)"
  using assms
  by (simp add: saveOrder_def newOrder_def validOrder_def validAddress_def preSave_def
        insertOrder_def orderNumberFor_sample first_order_def basket_def home_def shop_def
        Let_def)

lemma createOrder_sample:
  "createOrder calm aliceId basket shop =
     (Response 201 (OrderPlacedJson orderId1 ''ORD17000000000000001''),
      shop\<lparr>orders := [first_order],
           carts := [aliceId \<mapsto> []],
           outbox := [\<lparr>m_to = ''alice@x.com'',
                      m_subject = ''Order Confirmation - ORD17000000000000001''\<rparr>]\<rparr>)"
proof -
  have v: "validateProducts (findById calm shop) (ob_products basket) 0 [] =
      Inr (200, [\<lparr>ol_productId = shirtId, ol_quantity = 2, ol_price = 100\<rparr>])"
    by (rule validateProducts_sample) (simp_all add: calm_def)
  have sv: "saveOrder calm (newOrder calm aliceId basket 200
             [\<lparr>ol_productId = shirtId, ol_quantity = 2, ol_price = 100\<rparr>]) shop =
           Some (first_order, shop\<lparr>orders := [first_order]\<rparr>)"
    by (rule saveOrder_sample) (simp_all add: calm_def)
  show ?thesis
    by (simp add: createOrder_saved [OF v sv])
       (simp add: calm_def sendConfirmation_def sendMail_def clearCart_def shop_def alice_def
          first_order_def)
qed

text \<open>The scenario of the specification on the current server: one line of two items at
  the catalog price 100, a client total of 1, and the stored total is 203.\<close>

lemma createOrder_sample_total:
  "map o_totalAmount (orders (snd (createOrder calm aliceId basket shop))) = [203]"
  by (simp add: createOrder_sample first_order_def)

text \<open>
  Claim C1: the stored total of a placed order is the sum over its lines of catalog price
  times quantity plus the delivery charge, whatever price or total the client sends. The
  current server does this (lemmas \<open>createOrder_total\<close>,
  \<open>createOrder_ignores_client_amounts\<close>, \<open>createOrder_sample_total\<close>). The earlier
  server stores the total of the request body: with the product at the catalog price 100,
  a line of quantity 2 and a client total of 1, it answers 201 and the stored total is 1,
  not 203.
\<close>

theorem createOrder_legacy_stores_client_total:
  "products_legacy shop_legacy shirtId = Some \<lparr>lp_price = 100\<rparr> \<and>
   map i_quantity (ob_products basket) = [2] \<and>
   ob_totalAmount basket = Some 1 \<and>
   fst (createOrder_legacy calm aliceId basket shop_legacy) =
     Response 201 (OrderPlacedLegacyJson orderId1) \<and>
   map lo_totalAmount (orders_legacy (snd (createOrder_legacy calm aliceId basket shop_legacy))) =
     [1]"
  by (simp add: createOrder_legacy_def shop_legacy_def basket_def calm_def)

text \<open>
  Claim C2, as stated, fails for a line whose product id is no ObjectId: no product has
  that id, the lookup throws, and the answer is 500 \<open>Internal server error\<close>, not the
  error of a product that is not found.
\<close>

theorem createOrder_malformed_id_is_server_error:
  "products shop ''pB'' = None \<and>
   map i_productId (ob_products malformed_basket) = [shirtId, ''pB''] \<and>
   createOrder calm aliceId malformed_basket shop =
     (Response 500 (ErrorJson ''Internal server error''), shop)"
proof -
  have calm: "\<not> e_findFails calm" "e_cast calm = hexObjectId"
    by (simp_all add: calm_def)
  have "validateProducts (findById calm shop) (ob_products malformed_basket) 0 [] = Inl Threw"
    by (simp add: findById_samples [OF calm] malformed_basket_def basket_def shirt_def)
  then have "createOrder calm aliceId malformed_basket shop = (internalError, shop)"
    by (simp add: createOrder_def)
  moreover have "products shop ''pB'' = None"
    by (simp add: shop_def shirtId_def scarfId_def tieId_def)
  ultimately show ?thesis
    by (simp add: internalError_def malformed_basket_def basket_def)
qed

text \<open>
  Claim C2, amended. If some line of the request names a product that is not found and
  active, the request fails and the database is the one before the request: no order
  document, no order number, the cart as it was, no mail in the outbox. The first such
  line decides the answer: status 400 with the body \<open>Product <id> not found\<close> for the id
  of that line when its lookup returned no product or an inactive one, and status 500
  \<open>Internal server error\<close> when its lookup threw, as it does for an id that is no
  ObjectId and for a failing read.
\<close>

theorem createOrder_rejects_unknown_product:
  assumes "it \<in> set (ob_products b)"
    and "\<forall>oid product. findById ev s (i_productId it) = Found oid product \<longrightarrow>
           \<not> p_isActive product"
  shows "\<exists>before bad after.
           ob_products b = before @ bad # after \<and>
           (\<forall>x \<in> set before. \<exists>oid product.
              findById ev s (i_productId x) = Found oid product \<and> p_isActive product) \<and>
           (\<forall>oid product. findById ev s (i_productId bad) = Found oid product \<longrightarrow>
              \<not> p_isActive product) \<and>
           createOrder ev userId b s =
             (if findById ev s (i_productId bad) = Thrown then internalError
              else Response 400 (ErrorJson (''Product '' @ i_productId bad @ '' not found'')),
              s)"
proof -
  let ?bad = "\<lambda>x. \<forall>oid product. findById ev s (i_productId x) = Found oid product \<longrightarrow>
      \<not> p_isActive product"
  from assms have "\<exists>x \<in> set (ob_products b). ?bad x" by blast
  from split_list_first_prop [OF this] obtain before bad after
    where split: "ob_products b = before @ bad # after"
      and bad: "?bad bad"
      and good: "\<forall>x \<in> set before. \<not> ?bad x"
    by blast
  from good have good': "\<forall>x \<in> set before. \<exists>oid product.
      findById ev s (i_productId x) = Found oid product \<and> p_isActive product"
    by blast
  have "validateProducts (findById ev s) (ob_products b) 0 [] =
      Inl (if findById ev s (i_productId bad) = Thrown then Threw
           else NotFound (i_productId bad))"
    unfolding split by (rule validateProducts_Inl [OF good' bad])
  then have "createOrder ev userId b s =
      (if findById ev s (i_productId bad) = Thrown then internalError
       else Response 400 (ErrorJson (''Product '' @ i_productId bad @ '' not found'')), s)"
    by (simp add: createOrder_def)
  with split good' bad show ?thesis by blast
qed

theorem createOrder_rejects_unknown_product_witness:
  "createOrder calm aliceId withdrawn_basket shop =
     (Response 400 (ErrorJson (''Product '' @ scarfId @ '' not found'')), shop)"
proof -
  let ?shirts = "\<lparr>i_productId = shirtId, i_quantity = 2, i_price = None\<rparr>"
  let ?scarf = "\<lparr>i_productId = scarfId, i_quantity = 1, i_price = None\<rparr>"
  have lines: "ob_products withdrawn_basket = [?shirts, ?scarf]"
    by (simp add: withdrawn_basket_def)
  have calm: "\<not> e_findFails calm" "e_cast calm = hexObjectId"
    by (simp_all add: calm_def)
  have shirts: "findById calm shop shirtId = Found shirtId shirt" "p_isActive shirt"
    by (simp_all add: findById_samples [OF calm] shirt_def)
  have scarf: "findById calm shop scarfId = Found scarfId scarf" "\<not> p_isActive scarf"
    by (simp_all add: findById_samples [OF calm] scarf_def)
  have line: "?scarf \<in> set (ob_products withdrawn_basket)"
    by (simp add: lines)
  have withdrawn: "\<forall>oid product. findById calm shop (i_productId ?scarf) = Found oid product \<longrightarrow>
      \<not> p_isActive product"
    by (simp add: scarf)
  from createOrder_rejects_unknown_product [OF line withdrawn, of aliceId]
  obtain before bad after where split: "[?shirts, ?scarf] = before @ bad # after"
    and bad: "\<forall>oid product. findById calm shop (i_productId bad) = Found oid product \<longrightarrow>
        \<not> p_isActive product"
    and r: "createOrder calm aliceId withdrawn_basket shop =
      (if findById calm shop (i_productId bad) = Thrown then internalError
       else Response 400 (ErrorJson (''Product '' @ i_productId bad @ '' not found'')), shop)"
    unfolding lines by blast
  have "bad \<noteq> ?shirts"
    using bad shirts by auto
  with split have "bad = ?scarf"
    by (auto simp: Cons_eq_append_conv)
  with r scarf show ?thesis by simp
qed

text \<open>
  Claim C4, as stated, fails where the cart cannot be cleared: the order is stored and
  stays stored, but the request is answered with status 500.
\<close>

theorem createOrder_cart_failure_is_surfaced:
  "fst (createOrder cart_down aliceId basket shop) =
     Response 500 (ErrorJson ''Internal server error'') \<and>
   orders (snd (createOrder cart_down aliceId basket shop)) = [first_order]"
proof -
  have v: "validateProducts (findById cart_down shop) (ob_products basket) 0 [] =
      Inr (200, [\<lparr>ol_productId = shirtId, ol_quantity = 2, ol_price = 100\<rparr>])"
    by (rule validateProducts_sample) (simp_all add: cart_down_def calm_def)
  have sv: "saveOrder cart_down (newOrder cart_down aliceId basket 200
             [\<lparr>ol_productId = shirtId, ol_quantity = 2, ol_price = 100\<rparr>]) shop =
           Some (first_order, shop\<lparr>orders := [first_order]\<rparr>)"
    by (rule saveOrder_sample) (simp_all add: cart_down_def calm_def)
  show ?thesis
    by (simp add: createOrder_saved [OF v sv])
       (simp add: cart_down_def internalError_def)
qed

text \<open>
  Claim C4, amended. Once the order is saved it stays in the collection whatever happens
  to the cart and to the mail. A failing mail transport is swallowed: if clearing the
  cart succeeds, the answer is 201 with the id and number of the saved order, and it is
  the same answer with and without a working transport. A failure to clear the cart is
  answered with 500 \<open>Internal server error\<close>; cart and outbox are then as before.
\<close>

theorem createOrder_secondary_effects:
  assumes "validateProducts (findById ev s) (ob_products b) 0 [] = Inr (t, ls)"
    and "saveOrder ev (newOrder ev userId b t ls) s = Some (saved, s1)"
  shows "orders (snd (createOrder ev userId b s)) = orders s @ [saved] \<and>
         (\<not> e_cartClearFails ev \<longrightarrow>
            fst (createOrder ev userId b s) =
              Response 201 (OrderPlacedJson (o_id saved) (o_orderNumber saved)) \<and>
            fst (createOrder (ev\<lparr>e_mailFails := True\<rparr>) userId b s) =
              fst (createOrder (ev\<lparr>e_mailFails := False\<rparr>) userId b s)) \<and>
         (e_cartClearFails ev \<longrightarrow>
            fst (createOrder ev userId b s) = internalError \<and>
            carts (snd (createOrder ev userId b s)) = carts s \<and>
            outbox (snd (createOrder ev userId b s)) = outbox s)"
proof -
  note frame = saveOrder_frame [OF assms(2)]
  have stays: "orders (snd (createOrder ev userId b s)) = orders s @ [saved]"
    using frame by (simp add: createOrder_saved [OF assms] sendConfirmation_frame)
  have look: "validateProducts (findById (ev\<lparr>e_mailFails := m\<rparr>) s) (ob_products b) 0 [] =
      Inr (t, ls)" for m
    using assms(1) findById_env [of "ev\<lparr>e_mailFails := m\<rparr>" ev s] by simp
  have mail: "saveOrder (ev\<lparr>e_mailFails := m\<rparr>) (newOrder (ev\<lparr>e_mailFails := m\<rparr>) userId b t ls) s =
      Some (saved, s1)" for m
    using assms(2) by (simp add: saveOrder_def newOrder_def split: if_splits)
  have swallowed: "fst (createOrder ev userId b s) =
        Response 201 (OrderPlacedJson (o_id saved) (o_orderNumber saved)) \<and>
      fst (createOrder (ev\<lparr>e_mailFails := True\<rparr>) userId b s) =
        fst (createOrder (ev\<lparr>e_mailFails := False\<rparr>) userId b s)"
    if "\<not> e_cartClearFails ev"
    using that
    by (simp add: createOrder_saved [OF assms] createOrder_saved [OF look mail])
  have surfaced: "fst (createOrder ev userId b s) = internalError \<and>
      carts (snd (createOrder ev userId b s)) = carts s \<and>
      outbox (snd (createOrder ev userId b s)) = outbox s"
    if "e_cartClearFails ev"
    using that frame by (simp add: createOrder_saved [OF assms])
  show ?thesis using stays swallowed surfaced by blast
qed

theorem createOrder_secondary_effects_witness:
  "fst (createOrder mail_down aliceId basket shop) =
     Response 201 (OrderPlacedJson orderId1 ''ORD17000000000000001'') \<and>
   orders (snd (createOrder mail_down aliceId basket shop)) = [first_order] \<and>
   fst (createOrder cart_down aliceId basket shop) = internalError \<and>
   carts (snd (createOrder cart_down aliceId basket shop)) = carts shop"
proof -
  have vm: "validateProducts (findById mail_down shop) (ob_products basket) 0 [] =
      Inr (200, [\<lparr>ol_productId = shirtId, ol_quantity = 2, ol_price = 100\<rparr>])"
    by (rule validateProducts_sample) (simp_all add: mail_down_def calm_def)
  have vc: "validateProducts (findById cart_down shop) (ob_products basket) 0 [] =
      Inr (200, [\<lparr>ol_productId = shirtId, ol_quantity = 2, ol_price = 100\<rparr>])"
    by (rule validateProducts_sample) (simp_all add: cart_down_def calm_def)
  have m: "saveOrder mail_down (newOrder mail_down aliceId basket 200
             [\<lparr>ol_productId = shirtId, ol_quantity = 2, ol_price = 100\<rparr>]) shop =
           Some (first_order, shop\<lparr>orders := [first_order]\<rparr>)"
    by (rule saveOrder_sample) (simp_all add: mail_down_def calm_def)
  have c: "saveOrder cart_down (newOrder cart_down aliceId basket 200
             [\<lparr>ol_productId = shirtId, ol_quantity = 2, ol_price = 100\<rparr>]) shop =
           Some (first_order, shop\<lparr>orders := [first_order]\<rparr>)"
    by (rule saveOrder_sample) (simp_all add: cart_down_def calm_def)
  have flags: "\<not> e_cartClearFails mail_down" "e_cartClearFails cart_down"
    by (simp_all add: mail_down_def cart_down_def calm_def)
  have none: "orders shop = []" by (simp add: shop_def)
  from createOrder_secondary_effects [OF vm m]
    createOrder_secondary_effects [OF vc c] flags none
  show ?thesis by (simp add: first_order_def)
qed

section \<open>Order numbers\<close>

lemma padStart4_length: "length (padStart4 str) = max 4 (length str)"
  by (simp add: padStart4_def)

lemma insertOrder_distinct:
  assumes "distinct (map o_orderNumber coll)" and "insertOrder ord coll = Some coll'"
  shows "distinct (map o_orderNumber coll') \<and> coll' = coll @ [ord] \<and>
         o_orderNumber ord \<notin> set (map o_orderNumber coll)"
  using assms by (auto simp: insertOrder_def split: if_splits)

lemma step_distinct:
  assumes "distinct (map o_orderNumber (stored st))"
  shows "distinct (map o_orderNumber (stored (step e st)))"
proof (cases e)
  case (Hook ord now)
  with assms show ?thesis by simp
next
  case (Insert oid)
  show ?thesis
  proof (cases "find (\<lambda>d. o_id d = oid) (inflight st)")
    case None
    with Insert assms show ?thesis by simp
  next
    case (Some ord)
    show ?thesis
    proof (cases "insertOrder ord (stored st)")
      case None
      with Insert Some assms show ?thesis by simp
    next
      case (Some coll)
      from insertOrder_distinct [OF assms Some] Insert
        \<open>find (\<lambda>d. o_id d = oid) (inflight st) = Some ord\<close> Some
      show ?thesis by auto
    qed
  qed
qed

lemma run_distinct:
  assumes "distinct (map o_orderNumber (stored st))"
  shows "distinct (map o_orderNumber (stored (run evs st)))"
  using assms
proof (induction evs arbitrary: st)
  case Nil
  then show ?case by simp
next
  case (Cons e es)
  from Cons.IH [OF step_distinct [OF Cons.prems]] show ?case by simp
qed

lemma saveOrder_number:
  assumes "saveOrder ev ord s = Some (saved, s1)" and "o_orderNumber ord = []"
  shows "o_orderNumber saved = orderNumberFor (e_now ev) (length (orders s)) \<and>
         o_orderNumber saved \<notin> set (map o_orderNumber (orders s)) \<and>
         orders s1 = orders s @ [saved]"
  using assms
  by (auto simp: saveOrder_def insertOrder_def preSave_def Let_def split: if_splits)

lemma createOrder_orders:
  "orders (snd (createOrder ev userId b s)) = orders s \<or>
   (\<exists>t ls saved s1. saveOrder ev (newOrder ev userId b t ls) s = Some (saved, s1) \<and>
      orders (snd (createOrder ev userId b s)) = orders s @ [saved])"
proof (cases "validateProducts (findById ev s) (ob_products b) 0 []")
  case (Inl a)
  then show ?thesis by (cases a) (simp_all add: createOrder_def)
next
  case (Inr r)
  obtain t ls where r: "r = (t, ls)" by (cases r)
  show ?thesis
  proof (cases "saveOrder ev (newOrder ev userId b t ls) s")
    case None
    with Inr r show ?thesis by (simp add: createOrder_def)
  next
    case (Some a)
    obtain saved s1 where a: "a = (saved, s1)" by (cases a)
    from saveOrder_frame [OF Some [unfolded a]]
    have "orders (snd (createOrder ev userId b s)) = orders s @ [saved]"
      by (simp add: createOrder_saved [OF Inr [unfolded r] Some [unfolded a]]
            sendConfirmation_frame)
    with Some a show ?thesis by blast
  qed
qed

lemma newOrder_unnumbered: "o_orderNumber (newOrder ev userId b t ls) = []"
  by (simp add: newOrder_def)

text \<open>
  Claim C3, as stated, fails for two saves that overlap: when the pre-save hook of a second
  order runs before the first order is inserted, within the same millisecond, both
  documents get the same order number; the first insert succeeds and the second is
  rejected under the unique index.
\<close>

theorem overlapping_saves_get_same_number:
  "map o_orderNumber
     (inflight (run [Hook draft1 1700000000000, Hook draft2 1700000000000] idle)) =
     [''ORD17000000000000001'', ''ORD17000000000000001''] \<and>
   map o_id (stored (run [Hook draft1 1700000000000, Hook draft2 1700000000000,
                          Insert orderId1, Insert orderId2] idle)) = [orderId1] \<and>
   rejected (run [Hook draft1 1700000000000, Hook draft2 1700000000000,
                  Insert orderId1, Insert orderId2] idle) = [orderId2]"
  by (simp add: idle_def draft1_def draft2_def newOrder_def preSave_def insertOrder_def
        orderNumberFor_sample calm_def sample_ids_differ)

text \<open>
  Claim C3, amended. The number of a placed order is \<open>ORD\<close>, the clock value of the save in
  milliseconds and the document count read by the pre-save hook of that save plus one,
  padded with zeros to at least four digits. Stored orders never share a number: the
  placement handler and every interleaving of hooks and inserts keep the numbers of the
  collection pairwise distinct, because an insert whose number is taken is rejected.
\<close>

theorem stored_order_numbers_distinct:
  assumes "distinct (map o_orderNumber (orders s))"
    and "distinct (map o_orderNumber (stored st))"
  shows "distinct (map o_orderNumber (orders (snd (createOrder ev userId b s)))) \<and>
         (createOrder ev userId b s = (Response 201 (OrderPlacedJson oid num), s') \<longrightarrow>
            num = ''ORD'' @ showNat (e_now ev) @ padStart4 (showNat (length (orders s) + 1)) \<and>
            4 \<le> length (padStart4 (showNat (length (orders s) + 1))) \<and>
            num \<notin> set (map o_orderNumber (orders s)) \<and>
            map o_orderNumber (orders s') = map o_orderNumber (orders s) @ [num]) \<and>
         distinct (map o_orderNumber (stored (run evs st)))"
proof -
  have handler: "distinct (map o_orderNumber (orders (snd (createOrder ev userId b s))))"
  proof -
    from createOrder_orders [of ev userId b s]
    consider "orders (snd (createOrder ev userId b s)) = orders s"
      | t ls saved s1 where "saveOrder ev (newOrder ev userId b t ls) s = Some (saved, s1)"
        "orders (snd (createOrder ev userId b s)) = orders s @ [saved]"
      by blast
    then show ?thesis
    proof cases
      case 1
      with assms(1) show ?thesis by simp
    next
      case 2
      from saveOrder_number [OF 2(1) newOrder_unnumbered] 2(2) assms(1)
      show ?thesis by auto
    qed
  qed
  have placed: "num = ''ORD'' @ showNat (e_now ev) @ padStart4 (showNat (length (orders s) + 1)) \<and>
      4 \<le> length (padStart4 (showNat (length (orders s) + 1))) \<and>
      num \<notin> set (map o_orderNumber (orders s)) \<and>
      map o_orderNumber (orders s') = map o_orderNumber (orders s) @ [num]"
    if ok: "createOrder ev userId b s = (Response 201 (OrderPlacedJson oid num), s')"
  proof -
    from createOrder_placed [OF ok] obtain t ls saved s1
      where sv: "saveOrder ev (newOrder ev userId b t ls) s = Some (saved, s1)"
        and num: "num = o_orderNumber saved"
        and s': "s' = sendConfirmation ev userId saved
                        (s1\<lparr>carts := clearCart userId (carts s1)\<rparr>)"
      by auto
    from saveOrder_number [OF sv newOrder_unnumbered]
    have n: "o_orderNumber saved = orderNumberFor (e_now ev) (length (orders s))"
      and fresh: "o_orderNumber saved \<notin> set (map o_orderNumber (orders s))"
      and o: "orders s1 = orders s @ [saved]"
      by blast+
    have "orders s' = orders s @ [saved]"
      using s' o by (simp add: sendConfirmation_frame)
    with n fresh num show ?thesis
      by (simp add: orderNumberFor_def padStart4_length)
  qed
  show ?thesis using handler placed run_distinct [OF assms(2)] by blast
qed

theorem stored_order_numbers_distinct_witness:
  "distinct (map o_orderNumber (orders (snd (createOrder calm aliceId basket shop)))) \<and>
   ''ORD17000000000000001'' =
     ''ORD'' @ showNat (e_now calm) @ padStart4 (showNat (length (orders shop) + 1)) \<and>
   distinct (map o_orderNumber
     (stored (run [Hook draft1 1700000000000, Hook draft2 1700000000000,
                   Insert orderId1, Insert orderId2] idle)))"
proof -
  have none: "distinct (map o_orderNumber (orders shop))" by (simp add: shop_def)
  have idle: "distinct (map o_orderNumber (stored idle))" by (simp add: idle_def)
  from stored_order_numbers_distinct [OF none idle, where ev = calm and userId = aliceId
      and b = basket and oid = orderId1 and num = "''ORD17000000000000001''"
      and s' = "snd (createOrder calm aliceId basket shop)"
      and evs = "[Hook draft1 1700000000000, Hook draft2 1700000000000,
                  Insert orderId1, Insert orderId2]"]
  show ?thesis by (simp add: createOrder_sample)
qed

end
